theory Spec2Isabelle
  imports Complex_Main
begin

section \<open>Run-time values of the host language\<close>

text \<open>
  The visual is written in TypeScript and runs on JavaScript numbers.  A number is
  either finite, one of the two infinities, or NaN.  A finite number is modelled by
  the real it denotes; comparisons and maxima are exact on them, and the arithmetic
  of the layout rounds every result to the nearest double (see below).
\<close>

datatype jsnum = NaN | NegInf | Fin real | PosInf

text \<open>The relational operators: every comparison with NaN is false.\<close>

fun js_lt :: "jsnum \<Rightarrow> jsnum \<Rightarrow> bool" where
  "js_lt NaN _ = False"
| "js_lt _ NaN = False"
| "js_lt _ NegInf = False"
| "js_lt NegInf _ = True"
| "js_lt PosInf _ = False"
| "js_lt (Fin a) (Fin b) = (a < b)"
| "js_lt (Fin a) PosInf = True"


definition js_le :: "jsnum \<Rightarrow> jsnum \<Rightarrow> bool" where
  "js_le a b = (a \<noteq> NaN \<and> b \<noteq> NaN \<and> \<not> js_lt b a)"

definition js_ge :: "jsnum \<Rightarrow> jsnum \<Rightarrow> bool" where
  "js_ge a b = js_le b a"

text \<open>
  A measure value as the visual reads it (\<^verbatim>\<open>PrimitiveValue\<close>, documented as a
  number on a data point): a number, \<^verbatim>\<open>null\<close> for a blank cell, or
  \<^verbatim>\<open>undefined\<close> when an array is read past its end or an optional field is
  absent.  \<open>toNumber\<close> is the conversion the relational operators and
  \<^verbatim>\<open>Math.max\<close> apply to their operands.
\<close>

datatype prim = Undefined | Null | Num jsnum

fun toNumber :: "prim \<Rightarrow> jsnum" where
  "toNumber Undefined = NaN"
| "toNumber Null = Fin 0"
| "toNumber (Num n) = n"

text \<open>\<^verbatim>\<open>xs[i]\<close> on an array of values: \<^verbatim>\<open>undefined\<close> past the end.\<close>

definition at_prim :: "prim list \<Rightarrow> nat \<Rightarrow> prim" where
  "at_prim xs i = (if i < length xs then xs ! i else Undefined)"

text \<open>
  \<^verbatim>\<open>Math.max.apply(Math, xs)\<close>: the largest argument after conversion to a number,
  \<^verbatim>\<open>-Infinity\<close> for no argument, NaN as soon as one argument is NaN.
\<close>

fun js_max2 :: "jsnum \<Rightarrow> jsnum \<Rightarrow> jsnum" where
  "js_max2 NaN _ = NaN"
| "js_max2 _ NaN = NaN"
| "js_max2 a b = (if js_lt a b then b else a)"

definition Math_max :: "prim list \<Rightarrow> jsnum" where
  "Math_max xs = foldl (\<lambda>acc v. js_max2 acc (toNumber v)) NegInf xs"

datatype error = TypeError

section \<open>Double-precision arithmetic\<close>

text \<open>
  The layout is computed in IEEE 754 double precision: every sum, difference,
  product and quotient is the exact result rounded to the nearest number with a
  significand of 53 bits, ties going to the even significand, and a decimal literal
  of the source denotes the double nearest to it.  \<open>fl\<close> is that rounding.  Overflow
  and the subnormal range are left out: the heights, paddings and slots of a chart
  are far from both.
\<close>

definition roundHalfEven :: "real \<Rightarrow> int" where
  "roundHalfEven y =
     (let f = \<lfloor>y\<rfloor>
      in if y - of_int f < 1 / 2 then f
         else if 1 / 2 < y - of_int f then f + 1
         else if even f then f else f + 1)"

definition fl :: "real \<Rightarrow> real" where
  "fl x =
     (if x = 0 then 0
      else (let e = \<lfloor>log 2 \<bar>x\<bar>\<rfloor>
            in of_int (roundHalfEven (x / 2 powi (e - 52))) * 2 powi (e - 52)))"

definition fadd :: "real \<Rightarrow> real \<Rightarrow> real" where
  "fadd a b = fl (a + b)"

definition fsub :: "real \<Rightarrow> real \<Rightarrow> real" where
  "fsub a b = fl (a - b)"

definition fmul :: "real \<Rightarrow> real \<Rightarrow> real" where
  "fmul a b = fl (a * b)"

definition fdiv :: "real \<Rightarrow> real \<Rightarrow> real" where
  "fdiv a b = fl (a / b)"

section \<open>The data view\<close>

text \<open>
  The host's categorical data view, with the fields the visual reads.  A field the
  code tests for presence before use is an \<open>option\<close>; \<open>None\<close> is an absent
  (\<^verbatim>\<open>undefined\<close>) field.  Category values are kept in the string form the builder
  gives them (\<^verbatim>\<open>category.values[i] + ""\<close>).
\<close>

record column =
  displayName :: string
  index :: int
  roles :: "string list"

record valueColumn =
  vsource :: column
  vvalues :: "prim list"
  maxLocal :: prim

record categoryColumn =
  csource :: "column option"
  cvalues :: "string list"
  cfill :: "string option list"

section \<open>Locating the overlap series\<close>

text \<open>
  \<^verbatim>\<open>getOverlapIndex(metadata)\<close>: \<^verbatim>\<open>forEach\<close> over the metadata columns, overwriting
  \<^verbatim>\<open>index\<close> at every column whose roles own the key \<^verbatim>\<open>overlapValues\<close>.  The
  argument is \<^verbatim>\<open>metadata.columns\<close>, \<open>None\<close> when the field is absent.
\<close>

definition getOverlapIndex :: "column list option \<Rightarrow> int" where
  "getOverlapIndex columns =
     (case columns of
        None \<Rightarrow> - 1
      | Some cs \<Rightarrow>
          if length cs > 0
          then foldl (\<lambda>idx element. if ''overlapValues'' \<in> set (roles element)
                                      then index element else idx) (- 1) cs
          else - 1)"

text \<open>
  \<^verbatim>\<open>getDataValueForOverlapValue(values, overlapIndex)\<close>: the loop looks for the first
  value column whose \<^verbatim>\<open>source.index\<close> is the overlap index and breaks there.
\<close>

fun findOverlapColumn :: "valueColumn list \<Rightarrow> int \<Rightarrow> nat \<Rightarrow> nat option" where
  "findOverlapColumn [] overlapIndex i = None"
| "findOverlapColumn (v # vs) overlapIndex i =
     (if index (vsource v) = overlapIndex then Some i
      else findOverlapColumn vs overlapIndex (Suc i))"

definition getDataValueForOverlapValue :: "valueColumn list \<Rightarrow> int \<Rightarrow> prim list" where
  "getDataValueForOverlapValue vals overlapIndex =
     (case findOverlapColumn vals overlapIndex 0 of
        Some i \<Rightarrow> vvalues (vals ! i)
      | None \<Rightarrow> [])"

section \<open>Settings\<close>

text \<open>
  \<^verbatim>\<open>IBarChartSettings\<close>: one record per option group.  A colour is kept as the colour
  string of its solid-fill object.  The view model built for a rejected data view
  carries an empty settings object, one with no group at all, and the update pass
  tests groups for presence, so every group is optional.
\<close>

record GeneralView =
  gv_minHeight :: real
  gv_barHeight :: real
  gv_opacity :: real
  gv_barsColor :: string
  gv_overlapColor :: string
  gv_textColor :: string

record FontParams =
  fp_show :: bool
  fp_fontSize :: real

record Units =
  un_tooltipUnits :: real
  un_decimalPlaces :: "real option"

record ShowBarLabels =
  sl_show :: bool
  sl_textColor :: string
  sl_highlightColor :: string

record AlignBarLabels =
  al_show :: bool

record BarShape =
  bs_shape :: string
  bs_labelPosition :: string
  bs_headColor :: string

record BarHeight =
  bh_show :: bool
  bh_height :: real

record Experimental =
  ex_show :: bool
  ex_blendMode :: string

record ClearFilters =
  cf_show :: bool

record IBarChartSettings =
  generalView :: "GeneralView option"
  fontParams :: "FontParams option"
  units :: "Units option"
  showBarLabels :: "ShowBarLabels option"
  alignBarLabels :: "AlignBarLabels option"
  barShape :: "BarShape option"
  barHeight :: "BarHeight option"
  experimental :: "Experimental option"
  clearFilters :: "ClearFilters option"

definition emptySettings :: IBarChartSettings where
  "emptySettings =
     \<lparr> generalView = None, fontParams = None, units = None, showBarLabels = None,
       alignBarLabels = None, barShape = None, barHeight = None, experimental = None,
       clearFilters = None \<rparr>"

text \<open>
  The format-pane objects the host keeps in \<^verbatim>\<open>metadata.objects\<close>: per object name,
  the properties the user has set.
\<close>

datatype pval = PNum real | PBool bool | PStr string | PFill string | PNull

type_synonym objects = "(string \<times> (string \<times> pval) list) list"

text \<open>
  Modelled from the spec: \<^verbatim>\<open>getValue\<close> of \<^verbatim>\<open>objectEnumerationUtility\<close>, which the
  visual imports and which is not among the sources.  The spec says of it that each
  option has a default and that unset host-provided values fall back to the default.
  The typed readers stand for its instances at numbers, booleans, strings and fills;
  the host stores a property with the type its declaration gives it.
\<close>

definition getValue :: "objects option \<Rightarrow> string \<Rightarrow> string \<Rightarrow> pval option" where
  "getValue objs objectName propertyName =
     (case objs of
        None \<Rightarrow> None
      | Some os \<Rightarrow>
          (case map_of os objectName of
             None \<Rightarrow> None
           | Some props \<Rightarrow> map_of props propertyName))"

definition getNum :: "objects option \<Rightarrow> string \<Rightarrow> string \<Rightarrow> real \<Rightarrow> real" where
  "getNum objs objectName propertyName dflt =
     (case getValue objs objectName propertyName of Some (PNum r) \<Rightarrow> r | _ \<Rightarrow> dflt)"

definition getNumOpt :: "objects option \<Rightarrow> string \<Rightarrow> string \<Rightarrow> real option \<Rightarrow> real option" where
  "getNumOpt objs objectName propertyName dflt =
     (case getValue objs objectName propertyName of Some (PNum r) \<Rightarrow> Some r | _ \<Rightarrow> dflt)"

definition getBool :: "objects option \<Rightarrow> string \<Rightarrow> string \<Rightarrow> bool \<Rightarrow> bool" where
  "getBool objs objectName propertyName dflt =
     (case getValue objs objectName propertyName of Some (PBool b) \<Rightarrow> b | _ \<Rightarrow> dflt)"

definition getStr :: "objects option \<Rightarrow> string \<Rightarrow> string \<Rightarrow> string \<Rightarrow> string" where
  "getStr objs objectName propertyName dflt =
     (case getValue objs objectName propertyName of Some (PStr s) \<Rightarrow> s | _ \<Rightarrow> dflt)"

definition getFill :: "objects option \<Rightarrow> string \<Rightarrow> string \<Rightarrow> string \<Rightarrow> string" where
  "getFill objs objectName propertyName dflt =
     (case getValue objs objectName propertyName of Some (PFill c) \<Rightarrow> c | _ \<Rightarrow> dflt)"

text \<open>The settings object \<^verbatim>\<open>visualTransform\<close> builds, with the defaults it declares.\<close>

definition buildSettings :: "objects option \<Rightarrow> IBarChartSettings" where
  "buildSettings objs =
     \<lparr> generalView = Some
         \<lparr> gv_minHeight = getNum objs ''generalView'' ''minHeight'' 250,
           gv_barHeight = getNum objs ''generalView'' ''barHeight'' 30,
           gv_opacity = getNum objs ''generalView'' ''opacity'' 100,
           gv_barsColor = getFill objs ''generalView'' ''barsColor'' ''turquoise'',
           gv_overlapColor = getFill objs ''generalView'' ''overlapColor'' ''#FEA19E'',
           gv_textColor = getFill objs ''generalView'' ''textColor'' ''#000'' \<rparr>,
       fontParams = Some
         \<lparr> fp_show = getBool objs ''fontParams'' ''show'' False,
           fp_fontSize = getNum objs ''fontParams'' ''fontSize'' 11 \<rparr>,
       units = Some
         \<lparr> un_tooltipUnits = getNum objs ''units'' ''tooltipUnits'' 0,
           un_decimalPlaces = getNumOpt objs ''units'' ''decimalPlaces'' None \<rparr>,
       showBarLabels = Some
         \<lparr> sl_show = getBool objs ''showBarLabels'' ''show'' True,
           sl_textColor = getFill objs ''showBarLabels'' ''textColor'' ''#FFF'',
           sl_highlightColor = getFill objs ''showBarLabels'' ''highlightColor'' ''#000'' \<rparr>,
       alignBarLabels = Some
         \<lparr> al_show = getBool objs ''alignBarLabels'' ''show'' False \<rparr>,
       barShape = Some
         \<lparr> bs_shape = getStr objs ''barShape'' ''shape'' ''Bar'',
           bs_labelPosition = getStr objs ''barShape'' ''labelPosition'' ''Top'',
           bs_headColor = getFill objs ''barShape'' ''headColor'' ''#FEA19E'' \<rparr>,
       barHeight = Some
         \<lparr> bh_show = getBool objs ''barHeight'' ''show'' True,
           bh_height = getNum objs ''barHeight'' ''height'' 30 \<rparr>,
       experimental = Some
         \<lparr> ex_show = getBool objs ''experimental'' ''show'' False,
           ex_blendMode = getStr objs ''experimental'' ''blendMode'' ''difference'' \<rparr>,
       clearFilters = Some
         \<lparr> cf_show = getBool objs ''clearFilters'' ''show'' False \<rparr> \<rparr>"

section \<open>The view-model builder\<close>

text \<open>The field \<open>valueColumns\<close> is \<^verbatim>\<open>categorical.values\<close>.\<close>

record categorical =
  categories :: "categoryColumn list option"
  valueColumns :: "valueColumn list option"

record metadata =
  columns :: "column list option"
  objects :: "objects option"

record dataView =
  categorical :: "categorical option"
  metadata :: metadata

record viewport =
  vp_width :: real
  vp_height :: real

record VisualUpdateOptions =
  dataViews :: "dataView list option"
  viewport :: viewport

text \<open>
  A data point.  The selection identity is an opaque token of the host, a type
  parameter here; \<open>width\<close> is \<^verbatim>\<open>null\<close> when built.
\<close>

record 'sid IBarChartDataPoint =
  dpValue :: prim
  formattedValue :: string
  overlapValue :: prim
  formattedOverlapValue :: string
  category :: string
  precision :: "real option"
  tooltip :: "(string \<times> string) list"
  color :: string
  selectionId :: "'sid option"
  width :: "real option"
  currTextWidth :: real
  selected :: bool

record 'sid IBarChartViewModel =
  dataPoints :: "'sid IBarChartDataPoint list"
  dataMax :: prim
  widthMax :: real
  settings :: IBarChartSettings

text \<open>
  The services of the host and of the formatting library that the builder calls:
  the colour palette, the value formatter made for a column's format string (applied
  to a measure value, or to a category value, \<open>None\<close> when that read was past the end),
  the precision of a column's format, text measurement at a font size, and the
  selection-id builder for a category row.
\<close>

record 'sid host =
  getColor :: "string \<Rightarrow> string"
  formatValue :: "column option \<Rightarrow> prim \<Rightarrow> string"
  formatCategory :: "column option \<Rightarrow> string option \<Rightarrow> string"
  formatPrecision :: "column option \<Rightarrow> real option"
  measureSvgTextWidth :: "real \<Rightarrow> string \<Rightarrow> real"
  createSelectionId :: "nat \<Rightarrow> 'sid"

text \<open>\<^verbatim>\<open>getMetadataIndexFor\<close>: the first position with the display name, the length when
  there is none.\<close>

fun getMetadataIndexFor :: "string \<Rightarrow> column list \<Rightarrow> nat" where
  "getMetadataIndexFor name [] = 0"
| "getMetadataIndexFor name (c # cs) =
     (if displayName c = name then 0 else Suc (getMetadataIndexFor name cs))"

definition column_at :: "column list \<Rightarrow> nat \<Rightarrow> column option" where
  "column_at cs i = (if i < length cs then Some (cs ! i) else None)"

text \<open>A category value as read, and as the label \<^verbatim>\<open>category.values[i] + ""\<close>.\<close>

definition category_at :: "string list \<Rightarrow> nat \<Rightarrow> string option" where
  "category_at cs i = (if i < length cs then Some (cs ! i) else None)"

definition category_label :: "string list \<Rightarrow> nat \<Rightarrow> string" where
  "category_label cs i = (case category_at cs i of Some s \<Rightarrow> s | None \<Rightarrow> ''undefined'')"

text \<open>
  Modelled from the spec: \<^verbatim>\<open>getCategoricalObjectValue\<close> of
  \<^verbatim>\<open>objectEnumerationUtility\<close>, not among the sources.  The spec: if no user override
  exists for a row, the colour is the palette's.  \<open>cfill\<close> holds the overrides by row.
\<close>

definition getCategoricalObjectValue :: "categoryColumn \<Rightarrow> nat \<Rightarrow> string \<Rightarrow> string" where
  "getCategoricalObjectValue cat i defaultColor =
     (if i < length (cfill cat)
      then (case cfill cat ! i of Some c \<Rightarrow> c | None \<Rightarrow> defaultColor)
      else defaultColor)"

text \<open>
  One pass of the builder's loop: the data point of row \<open>i\<close>.  \<open>dataValue\<close> is the
  first value column and \<open>tooltipData\<close> the columns after it; the settings are the
  ones just built, whose font group is always present.
\<close>

definition buildDataPoint ::
  "'sid host \<Rightarrow> categoryColumn \<Rightarrow> valueColumn \<Rightarrow> valueColumn list \<Rightarrow> column list
     \<Rightarrow> prim list \<Rightarrow> IBarChartSettings \<Rightarrow> nat \<Rightarrow> 'sid IBarChartDataPoint" where
  "buildDataPoint h cat dataValue tooltipData cols overlapDataValue sett i =
     (let tip = map (\<lambda>item.
                  (displayName (vsource item),
                   formatValue h
                     (column_at cols (getMetadataIndexFor (displayName (vsource item)) cols))
                     (at_prim (vvalues item) i))) tooltipData;
          fmt = column_at cols (getMetadataIndexFor (displayName (vsource dataValue)) cols);
          fontSize = (case fontParams sett of Some fp \<Rightarrow> fp_fontSize fp | None \<Rightarrow> 11)
      in \<lparr> dpValue = at_prim (vvalues dataValue) i,
           formattedValue = formatValue h fmt (at_prim (vvalues dataValue) i),
           overlapValue = (if length overlapDataValue > 0 then at_prim overlapDataValue i else Null),
           formattedOverlapValue = '''',
           category = category_label (cvalues cat) i,
           precision = formatPrecision h fmt,
           tooltip = tip,
           color = getCategoricalObjectValue cat i (getColor h (category_label (cvalues cat) i)),
           selectionId = Some (createSelectionId h i),
           width = None,
           currTextWidth = measureSvgTextWidth h fontSize
                             (formatCategory h fmt (category_at (cvalues cat) i)),
           selected = False \<rparr>)"

text \<open>
  The overlap series as the builder reads it: empty unless a metadata column has the
  overlap role, and then what \<open>getDataValueForOverlapValue\<close> finds among the value
  columns.
\<close>

definition overlapDataValueOf :: "metadata \<Rightarrow> valueColumn list \<Rightarrow> prim list" where
  "overlapDataValueOf md vals =
     (let overlapIndex = getOverlapIndex (columns md)
      in if overlapIndex \<noteq> - 1
         then getDataValueForOverlapValue vals overlapIndex else [])"

definition emptyViewModel :: "'sid IBarChartViewModel" where
  "emptyViewModel = \<lparr> dataPoints = [], dataMax = Num (Fin 0), widthMax = 0,
                       settings = emptySettings \<rparr>"

text \<open>
  \<^verbatim>\<open>visualTransform(options, host)\<close>.  The gate is the chain of negations of the
  source, in its order; \<^verbatim>\<open>categories[0].source\<close> is read with no test that
  \<^verbatim>\<open>categories\<close> has an element, and \<^verbatim>\<open>values[0].values\<close> likewise in the loop
  header, so an empty array raises there.  In the loop \<^verbatim>\<open>metadata.columns[i]\<close> is read
  unguarded.
\<close>

definition visualTransform ::
  "'sid host \<Rightarrow> VisualUpdateOptions \<Rightarrow> error + 'sid IBarChartViewModel" where
  "visualTransform h options =
     (case dataViews options of
        None \<Rightarrow> Inr emptyViewModel
      | Some [] \<Rightarrow> Inr emptyViewModel
      | Some (dv # _) \<Rightarrow>
     (case categorical dv of
        None \<Rightarrow> Inr emptyViewModel
      | Some c \<Rightarrow>
     (case categories c of
        None \<Rightarrow> Inr emptyViewModel
      | Some [] \<Rightarrow> Inl TypeError
      | Some (cat # _) \<Rightarrow>
     (case csource cat of
        None \<Rightarrow> Inr emptyViewModel
      | Some _ \<Rightarrow>
     (case valueColumns c of
        None \<Rightarrow> Inr emptyViewModel
      | Some [] \<Rightarrow> Inl TypeError
      | Some (dataValue # rest) \<Rightarrow>
          (let overlapDataValue = overlapDataValueOf (metadata dv) (dataValue # rest);
               sett = buildSettings (objects (metadata dv));
               len = max (length (cvalues cat)) (length (vvalues dataValue));
               overlapDataValueMax = Math_max overlapDataValue;
               dmax = (if js_le (toNumber (maxLocal dataValue)) overlapDataValueMax
                       then Num overlapDataValueMax else maxLocal dataValue)
           in (case columns (metadata dv) of
                 None \<Rightarrow>
                   if 0 < len then Inl TypeError
                   else Inr \<lparr> dataPoints = [], dataMax = dmax, widthMax = 0, settings = sett \<rparr>
               | Some cols \<Rightarrow>
                   Inr \<lparr> dataPoints =
                           map (buildDataPoint h cat dataValue rest cols overlapDataValue sett) [0..<len],
                         dataMax = dmax, widthMax = 0, settings = sett \<rparr>)))))))"

section \<open>The update pass: layout\<close>

text \<open>\<^verbatim>\<open>BarChart.Config\<close>.\<close>

definition barPadding :: real where "barPadding = fl 0.15"
definition fontScaleFactor :: real where "fontScaleFactor = 3"
definition maxHeightScale :: real where "maxHeightScale = 3"
definition outerPaddingScale :: real where "outerPaddingScale = 0.5"
definition solidOpacity :: real where "solidOpacity = 1"
definition transparentOpacity :: real where "transparentOpacity = 0.5"
definition xScalePadding :: real where "xScalePadding = fl 0.15"
definition xScaledMinDefault :: real where "xScaledMinDefault = 30"

text \<open>The resolved minimum slot height: the user's bar height when that group is
  present and switched on, the built-in floor otherwise.\<close>

definition xScaledMinOf :: "IBarChartSettings \<Rightarrow> real" where
  "xScaledMinOf sett =
     (case barHeight sett of
        Some bh \<Rightarrow> if bh_show bh then bh_height bh else xScaledMinDefault
      | None \<Rightarrow> xScaledMinDefault)"

text \<open>The outer padding \<^verbatim>\<open>update\<close> starts from.\<close>

definition outerPaddingInit :: real where
  "outerPaddingInit = - fl 0.1"

definition calcX :: "real \<Rightarrow> nat \<Rightarrow> real" where
  "calcX height n =
     fdiv height (fadd (fsub (fmul 2 outerPaddingScale) xScalePadding) (real n))"

definition calcHeight :: "IBarChartSettings \<Rightarrow> nat \<Rightarrow> real" where
  "calcHeight sett n =
     fmul (fadd (fsub (fmul (- 2) outerPaddingInit) xScalePadding) (real n)) (xScaledMinOf sett)"

text \<open>
  The decision of \<^verbatim>\<open>update\<close> on the outer padding and the height of the drawing
  surface, for a viewport height and a number of data points, operation by operation
  in the order the source evaluates them.  Viewport sizes are finite doubles.  A
  division by zero can only be reached with a negative viewport height, where the
  quotient fails the test \<^verbatim>\<open>> 0\<close> in the code as it does here.
\<close>

record layout =
  lay_outerPadding :: real
  lay_height :: real

definition updateLayout :: "IBarChartSettings \<Rightarrow> real \<Rightarrow> nat \<Rightarrow> layout" where
  "updateLayout sett height n =
     (let xScaledMax = fdiv height maxHeightScale;
          xScaledMin = xScaledMinOf sett;
          outerPadding = outerPaddingInit
      in if calcX height n > xScaledMax
         then (if xScaledMax \<ge> xScaledMin
               then (let tempouterPadding =
                           fdiv (fsub height (fmul (fadd (- xScalePadding) (real n)) xScaledMax))
                                (fmul 2 xScaledMax)
                     in \<lparr> lay_outerPadding =
                            (if tempouterPadding > 0 then tempouterPadding else outerPadding),
                          lay_height = height \<rparr>)
               else (let tempOuterPadding =
                           fdiv (fsub height (fmul (fadd (- xScalePadding) (real n)) xScaledMin))
                                (fmul 2 xScaledMin)
                     in \<lparr> lay_outerPadding =
                            (if tempOuterPadding > 0 then tempOuterPadding else outerPadding),
                          lay_height = height \<rparr>))
         else (if calcX height n < xScaledMin \<and> calcHeight sett n > height
               then \<lparr> lay_outerPadding = outerPadding, lay_height = calcHeight sett n \<rparr>
               else \<lparr> lay_outerPadding = outerPadding, lay_height = height \<rparr>))"

text \<open>
  The band scale is the one of the d3-scale library, which is not part of the
  repository.  Its computation for a rounded range \<open>[r0, r1]\<close>, \<open>n\<close> distinct domain
  values and the two paddings, in doubles like the rest: the step is
  \<^verbatim>\<open>(stop - start) / Math.max(1, n - paddingInner + paddingOuter * 2)\<close>, rounded down
  by \<^verbatim>\<open>Math.floor\<close>; the bandwidth is \<^verbatim>\<open>step * (1 - paddingInner)\<close>, rounded to the
  nearest integer by \<^verbatim>\<open>Math.round\<close>.  The outer padding is taken as the update pass
  passes it, below zero or above one as it may be, which is what the pass relies on.
\<close>

definition bandStep :: "real \<Rightarrow> real \<Rightarrow> nat \<Rightarrow> real \<Rightarrow> real \<Rightarrow> real" where
  "bandStep r0 r1 n paddingInner paddingOuter =
     (let start = (if r1 < r0 then r1 else r0);
          stop = (if r1 < r0 then r0 else r1)
      in of_int \<lfloor>fdiv (fsub stop start)
                       (max 1 (fadd (fsub (real n) paddingInner) (fmul paddingOuter 2)))\<rfloor>)"

definition bandwidth :: "real \<Rightarrow> real \<Rightarrow> nat \<Rightarrow> real \<Rightarrow> real \<Rightarrow> real" where
  "bandwidth r0 r1 n paddingInner paddingOuter =
     of_int \<lfloor>fmul (bandStep r0 r1 n paddingInner paddingOuter) (fsub 1 paddingInner) + 1 / 2\<rfloor>"

text \<open>
  \<^verbatim>\<open>yScale\<close> of the update pass: the domain is the categories of the data points (a
  band scale keeps each distinct value once), the range \<open>[5, height]\<close> with the height
  the layout decided.
\<close>

definition yScaleStep :: "IBarChartSettings \<Rightarrow> real \<Rightarrow> 'sid IBarChartDataPoint list \<Rightarrow> real" where
  "yScaleStep sett height dps =
     (let lay = updateLayout sett height (length dps)
      in bandStep 5 (lay_height lay) (length (remdups (map category dps)))
           barPadding (lay_outerPadding lay))"

definition yScaleBandwidth :: "IBarChartSettings \<Rightarrow> real \<Rightarrow> 'sid IBarChartDataPoint list \<Rightarrow> real" where
  "yScaleBandwidth sett height dps =
     (let lay = updateLayout sett height (length dps)
      in bandwidth 5 (lay_height lay) (length (remdups (map category dps)))
           barPadding (lay_outerPadding lay))"

section \<open>The update pass: font size and label measurement\<close>

text \<open>
  \<^verbatim>\<open>fontSizeToUse\<close>, from the settings applied in this pass and the bandwidth of the
  band scale.  The first test guards the font group; the two caps read
  \<^verbatim>\<open>fontParams.show\<close> unguarded, after the comparison, so they raise on a settings
  object without the group when the size is out of range.
\<close>

definition fontSizeToUse :: "IBarChartSettings \<Rightarrow> real \<Rightarrow> error + real" where
  "fontSizeToUse sett bw =
     (let f0 = (case fontParams sett of
                  Some fp \<Rightarrow> if fp_show fp then fp_fontSize fp else fdiv bw fontScaleFactor
                | None \<Rightarrow> fdiv bw fontScaleFactor)
      in if f0 < 8.5
         then (case fontParams sett of
                 None \<Rightarrow> Inl TypeError
               | Some fp \<Rightarrow> if \<not> fp_show fp then Inr 8.5 else Inr f0)
         else if f0 > 40
         then (case fontParams sett of
                 None \<Rightarrow> Inl TypeError
               | Some fp \<Rightarrow> if \<not> fp_show fp then Inr 40 else Inr f0)
         else Inr f0)"




section \<open>Selection state\<close>

text \<open>
  A rendered element of a selection: the data point bound to it and its
  \<^verbatim>\<open>fill-opacity\<close> style, \<open>Unset\<close> when the style is removed and the default
  applies.  \<open>incl a b\<close> is the host's \<^verbatim>\<open>a.includes(b)\<close> on selection identities.
\<close>

datatype opacity = Unset | Opacity real

record 'sid element =
  datum :: "'sid IBarChartDataPoint"
  fillOpacity :: opacity

definition isSelectionIdInArray ::
  "('sid \<Rightarrow> 'sid \<Rightarrow> bool) \<Rightarrow> 'sid list option \<Rightarrow> 'sid option \<Rightarrow> bool" where
  "isSelectionIdInArray incl selectionIds sid =
     (case selectionIds of
        None \<Rightarrow> False
      | Some ids \<Rightarrow>
          (case sid of
             None \<Rightarrow> False
           | Some s \<Rightarrow> list_ex (\<lambda>currentSelectionId. incl currentSelectionId s) ids))"

definition syncSelectionState ::
  "('sid \<Rightarrow> 'sid \<Rightarrow> bool) \<Rightarrow> 'sid element list option \<Rightarrow> 'sid list option
     \<Rightarrow> 'sid element list option" where
  "syncSelectionState incl selection selectionIds =
     (case selection of
        None \<Rightarrow> None
      | Some els \<Rightarrow>
          (case selectionIds of
             None \<Rightarrow> Some els
           | Some ids \<Rightarrow>
               if length ids = 0
               then Some (map (\<lambda>e. e\<lparr>fillOpacity := Unset\<rparr>) els)
               else Some (map (\<lambda>e. e\<lparr>fillOpacity :=
                              (if isSelectionIdInArray incl (Some ids) (selectionId (datum e))
                               then Opacity solidOpacity
                               else Opacity transparentOpacity)\<rparr>) els)))"

section \<open>The format pane\<close>

text \<open>
  An instance pushed by \<^verbatim>\<open>enumerateObjectInstances\<close>: the object name, the property
  bag, and the number ranges (minimum, maximum) of \<^verbatim>\<open>validValues\<close>.  The selector is
  always \<^verbatim>\<open>null\<close>.  Reading a property of a group that the settings object does not
  have raises.
\<close>

record VisualObjectInstance =
  objectName :: string
  properties :: "(string \<times> pval) list"
  validValues :: "(string \<times> real \<times> real) list"

definition enumerateObjectInstances ::
  "IBarChartSettings \<Rightarrow> string \<Rightarrow> error + VisualObjectInstance list" where
  "enumerateObjectInstances sett name =
     (if name = ''fontParams'' then
        (case fontParams sett of None \<Rightarrow> Inl TypeError | Some g \<Rightarrow>
           Inr [\<lparr> objectName = name,
                  properties = [(''fontSize'', PNum (fp_fontSize g)), (''show'', PBool (fp_show g))],
                  validValues = [] \<rparr>])
      else if name = ''generalView'' then
        (case generalView sett of None \<Rightarrow> Inl TypeError | Some g \<Rightarrow>
           Inr [\<lparr> objectName = name,
                  properties = [(''barsColor'', PFill (gv_barsColor g)),
                                (''opacity'', PNum (gv_opacity g)),
                                (''overlapColor'', PFill (gv_overlapColor g)),
                                (''textColor'', PFill (gv_textColor g))],
                  validValues = [(''barHeight'', 20, 200), (''minHeight'', 50, 2500),
                                 (''opacity'', 10, 100)] \<rparr>])
      else if name = ''showBarLabels'' then
        (case showBarLabels sett of None \<Rightarrow> Inl TypeError | Some g \<Rightarrow>
           Inr [\<lparr> objectName = name,
                  properties = [(''highlightColor'', PFill (sl_highlightColor g)),
                                (''show'', PBool (sl_show g)),
                                (''textColor'', PFill (sl_textColor g))],
                  validValues = [] \<rparr>])
      else if name = ''alignBarLabels'' then
        (case alignBarLabels sett of None \<Rightarrow> Inl TypeError | Some g \<Rightarrow>
           Inr [\<lparr> objectName = name,
                  properties = [(''show'', PBool (al_show g))],
                  validValues = [] \<rparr>])
      else if name = ''barShape'' then
        (case barShape sett of None \<Rightarrow> Inl TypeError | Some g \<Rightarrow>
           Inr [\<lparr> objectName = name,
                  properties = [(''headColor'', PFill (bs_headColor g)),
                                (''labelPosition'', PStr (bs_labelPosition g)),
                                (''shape'', PStr (bs_shape g))],
                  validValues = [] \<rparr>])
      else if name = ''barHeight'' then
        (case barHeight sett of None \<Rightarrow> Inl TypeError | Some g \<Rightarrow>
           Inr [\<lparr> objectName = name,
                  properties = [(''height'', PNum (bh_height g)), (''show'', PBool (bh_show g))],
                  validValues = [(''height'', 20, 200)] \<rparr>])
      else if name = ''experimental'' then
        (case experimental sett of None \<Rightarrow> Inl TypeError | Some g \<Rightarrow>
           Inr [\<lparr> objectName = name,
                  properties = [(''blendMode'', PStr (ex_blendMode g)),
                                (''show'', PBool (ex_show g))],
                  validValues = [] \<rparr>])
      else if name = ''clearFilters'' then
        (case clearFilters sett of None \<Rightarrow> Inl TypeError | Some g \<Rightarrow>
           Inr [\<lparr> objectName = name,
                  properties = [(''show'', PBool (cf_show g))],
                  validValues = [] \<rparr>])
      else Inr [])"

text \<open>
  The sub-object of \<^verbatim>\<open>IBarChartSettings\<close> that an object name stands for, with every
  field the interface declares for the group; \<open>None\<close> when the settings object lacks
  the group or the name is none of the eight.
\<close>

definition settingsGroup :: "IBarChartSettings \<Rightarrow> string \<Rightarrow> (string \<times> pval) list option" where
  "settingsGroup sett name =
     (if name = ''generalView'' then
        map_option (\<lambda>g. [(''minHeight'', PNum (gv_minHeight g)),
                          (''barHeight'', PNum (gv_barHeight g)),
                          (''opacity'', PNum (gv_opacity g)),
                          (''barsColor'', PFill (gv_barsColor g)),
                          (''overlapColor'', PFill (gv_overlapColor g)),
                          (''textColor'', PFill (gv_textColor g))]) (generalView sett)
      else if name = ''fontParams'' then
        map_option (\<lambda>g. [(''show'', PBool (fp_show g)),
                          (''fontSize'', PNum (fp_fontSize g))]) (fontParams sett)
      else if name = ''showBarLabels'' then
        map_option (\<lambda>g. [(''show'', PBool (sl_show g)),
                          (''textColor'', PFill (sl_textColor g)),
                          (''highlightColor'', PFill (sl_highlightColor g))]) (showBarLabels sett)
      else if name = ''alignBarLabels'' then
        map_option (\<lambda>g. [(''show'', PBool (al_show g))]) (alignBarLabels sett)
      else if name = ''barShape'' then
        map_option (\<lambda>g. [(''shape'', PStr (bs_shape g)),
                          (''labelPosition'', PStr (bs_labelPosition g)),
                          (''headColor'', PFill (bs_headColor g))]) (barShape sett)
      else if name = ''barHeight'' then
        map_option (\<lambda>g. [(''show'', PBool (bh_show g)),
                          (''height'', PNum (bh_height g))]) (barHeight sett)
      else if name = ''experimental'' then
        map_option (\<lambda>g. [(''show'', PBool (ex_show g)),
                          (''blendMode'', PStr (ex_blendMode g))]) (experimental sett)
      else if name = ''clearFilters'' then
        map_option (\<lambda>g. [(''show'', PBool (cf_show g))]) (clearFilters sett)
      else None)"

section \<open>Notions the properties are stated with\<close>

text \<open>
  The data view the gate of \<open>visualTransform\<close> lets through: the first data view, its
  first category column, the primary value column and the value columns after it.
\<close>

definition acceptedView ::
  "VisualUpdateOptions \<Rightarrow> (dataView \<times> categoryColumn \<times> valueColumn \<times> valueColumn list) option" where
  "acceptedView options =
     (case dataViews options of
        Some (dv # _) \<Rightarrow>
          (case categorical dv of
             Some c \<Rightarrow>
               (case categories c of
                  Some (cat # _) \<Rightarrow>
                    (case csource cat of
                       Some _ \<Rightarrow>
                         (case valueColumns c of
                            Some (dataValue # rest) \<Rightarrow> Some (dv, cat, dataValue, rest)
                          | _ \<Rightarrow> None)
                     | None \<Rightarrow> None)
                | _ \<Rightarrow> None)
           | None \<Rightarrow> None)
      | _ \<Rightarrow> None)"

text \<open>The font size of an update pass: \<open>fontSizeToUse\<close> at the bandwidth of its band
  scale.\<close>

definition updateFontSize ::
  "IBarChartSettings \<Rightarrow> real \<Rightarrow> 'sid IBarChartDataPoint list \<Rightarrow> error + real" where
  "updateFontSize sett height dps = fontSizeToUse sett (yScaleBandwidth sett height dps)"

text \<open>
  The format pane reports a settings group back: one instance is returned for the
  name, and its property bag is the group's sub-object, field for field.
\<close>

definition reportsGroup :: "IBarChartSettings \<Rightarrow> string \<Rightarrow> bool" where
  "reportsGroup sett name =
     (case settingsGroup sett name of
        None \<Rightarrow> False
      | Some g \<Rightarrow>
          (case enumerateObjectInstances sett name of
             Inr [inst] \<Rightarrow> map_of (properties inst) = map_of g
           | _ \<Rightarrow> False))"

text \<open>
  What two fields of a data point hold at run time: the value field a measure value
  as read from the primary series, the category field always a string, since the
  builder stores \<^verbatim>\<open>category.values[i] + ""\<close>.
\<close>

datatype fieldValue = FUndefined | FNull | FNumber jsnum | FString string

definition valueField :: "'sid IBarChartDataPoint \<Rightarrow> fieldValue" where
  "valueField d =
     (case dpValue d of Undefined \<Rightarrow> FUndefined | Null \<Rightarrow> FNull | Num n \<Rightarrow> FNumber n)"

definition categoryField :: "'sid IBarChartDataPoint \<Rightarrow> fieldValue" where
  "categoryField d = FString (category d)"

text \<open>The category fields of the view model built for an input, or the error raised.\<close>

definition builtCategoryFields :: "'sid host \<Rightarrow> VisualUpdateOptions \<Rightarrow> error + fieldValue list" where
  "builtCategoryFields h options =
     map_sum id (\<lambda>vm. map categoryField (dataPoints vm)) (visualTransform h options)"

text \<open>The \<open>dataMax\<close> of the view model built for an input, or the error raised.\<close>

definition builtDataMax :: "'sid host \<Rightarrow> VisualUpdateOptions \<Rightarrow> error + prim" where
  "builtDataMax h options = map_sum id dataMax (visualTransform h options)"

section \<open>Sample inputs\<close>

text \<open>
  A host whose services are simple functions, a data view with one category column,
  a primary series with its declared maximum and, when given, an overlap series; and
  a data point with a category, a value and a selection identity.
\<close>

definition num :: "real \<Rightarrow> prim" where
  "num r = Num (Fin r)"

definition sampleHost :: "nat host" where
  "sampleHost =
     \<lparr> getColor = (\<lambda>key. ''#01B8AA''),
       formatValue = (\<lambda>col v. ''''),
       formatCategory = (\<lambda>col s. case s of Some t \<Rightarrow> t | None \<Rightarrow> ''''),
       formatPrecision = (\<lambda>col. None),
       measureSvgTextWidth = (\<lambda>size t. real (length t) * size / 2),
       createSelectionId = (\<lambda>i. i) \<rparr>"

definition categoryCol :: column where
  "categoryCol = \<lparr> displayName = ''Category'', index = 0, roles = [''category''] \<rparr>"

definition measureCol :: column where
  "measureCol = \<lparr> displayName = ''Value'', index = 1, roles = [''measure''] \<rparr>"

definition overlapCol :: column where
  "overlapCol = \<lparr> displayName = ''Overlap'', index = 2, roles = [''overlapValues''] \<rparr>"

definition sampleCategory :: "string list \<Rightarrow> categoryColumn" where
  "sampleCategory cats = \<lparr> csource = Some categoryCol, cvalues = cats, cfill = [] \<rparr>"

definition samplePrimary :: "prim list \<Rightarrow> prim \<Rightarrow> valueColumn" where
  "samplePrimary vals mx = \<lparr> vsource = measureCol, vvalues = vals, maxLocal = mx \<rparr>"

definition sampleRest :: "prim list option \<Rightarrow> valueColumn list" where
  "sampleRest overlap =
     (case overlap of
        None \<Rightarrow> []
      | Some ov \<Rightarrow> [\<lparr> vsource = overlapCol, vvalues = ov, maxLocal = Undefined \<rparr>])"

definition sampleMetadata :: "prim list option \<Rightarrow> metadata" where
  "sampleMetadata overlap =
     \<lparr> columns = Some (categoryCol # measureCol #
                       (case overlap of None \<Rightarrow> [] | Some ov \<Rightarrow> [overlapCol])),
       objects = None \<rparr>"

definition sampleView ::
  "string list \<Rightarrow> prim list \<Rightarrow> prim \<Rightarrow> prim list option \<Rightarrow> dataView" where
  "sampleView cats vals mx overlap =
     \<lparr> categorical = Some
         \<lparr> categories = Some [sampleCategory cats],
           valueColumns = Some (samplePrimary vals mx # sampleRest overlap) \<rparr>,
       metadata = sampleMetadata overlap \<rparr>"

definition sampleOptions ::
  "string list \<Rightarrow> prim list \<Rightarrow> prim \<Rightarrow> prim list option \<Rightarrow> VisualUpdateOptions" where
  "sampleOptions cats vals mx overlap =
     \<lparr> dataViews = Some [sampleView cats vals mx overlap],
       viewport = \<lparr> vp_width = 400, vp_height = 300 \<rparr> \<rparr>"

definition samplePoint :: "string \<Rightarrow> prim \<Rightarrow> nat option \<Rightarrow> nat IBarChartDataPoint" where
  "samplePoint c v sid =
     \<lparr> dpValue = v, formattedValue = c, overlapValue = Null, formattedOverlapValue = '''',
       category = c, precision = None, tooltip = [], color = ''#01B8AA'',
       selectionId = sid, width = None, currTextWidth = 0, selected = False \<rparr>"

text \<open>Rows with the given categories, one data point each.\<close>

definition sampleRows :: "string list \<Rightarrow> nat IBarChartDataPoint list" where
  "sampleRows cats = map (\<lambda>c. samplePoint c (num 10) None) cats"

section \<open>Properties of the overlap lookup\<close>

lemma foldl_last_match:
  "foldl (\<lambda>idx e. if P e then f e else idx) a cs =
     (case filter P cs of [] \<Rightarrow> a | x # xs \<Rightarrow> f (last (x # xs)))"
proof (induction cs rule: rev_induct)
  case Nil
  then show ?case by simp
next
  case (snoc c cs)
  then show ?case by (simp split: list.splits)
qed

lemma findOverlapColumn_find:
  "(case findOverlapColumn vs k i of
      Some j \<Rightarrow> i \<le> j \<and> j < i + length vs \<and>
                find (\<lambda>v. index (vsource v) = k) vs = Some (vs ! (j - i))
    | None \<Rightarrow> find (\<lambda>v. index (vsource v) = k) vs = None)"
proof (induction vs arbitrary: i)
  case Nil
  then show ?case by simp
next
  case (Cons v vs)
  show ?case
  proof (cases "index (vsource v) = k")
    case True
    then show ?thesis by simp
  next
    case False
    with Cons[of "Suc i"] show ?thesis
      by (auto split: option.splits simp: Suc_diff_le)
  qed
qed

lemma getDataValueForOverlapValue_find:
  "getDataValueForOverlapValue vals k =
     (case find (\<lambda>v. index (vsource v) = k) vals of
        None \<Rightarrow> []
      | Some v \<Rightarrow> vvalues v)"
  using findOverlapColumn_find[where vs=vals and k=k and i=0]
  by (auto simp: getDataValueForOverlapValue_def split: option.splits)

text \<open>
  Claim C10.  \<open>getOverlapIndex\<close> returns \<open>-1\<close> when no metadata column has the role
  \<open>overlapValues\<close> (or the columns are absent), and otherwise the declared index of
  the last column with the role, in metadata order.  \<open>getDataValueForOverlapValue\<close>
  returns the values of the first value column whose source index is the given
  index, and the empty array when there is none; it has no failing branch.
\<close>

theorem overlap_lookup:
  "getOverlapIndex None = - 1 \<and>
   getOverlapIndex (Some cs) =
     (case filter (\<lambda>c. ''overlapValues'' \<in> set (roles c)) cs of
        [] \<Rightarrow> - 1
      | c # rest \<Rightarrow> index (last (c # rest))) \<and>
   getDataValueForOverlapValue vals k =
     (case find (\<lambda>v. index (vsource v) = k) vals of
        None \<Rightarrow> []
      | Some v \<Rightarrow> vvalues v)"
proof -
  have a: "getOverlapIndex None = - 1" by (simp add: getOverlapIndex_def)
  have b: "getOverlapIndex (Some cs) =
     (case filter (\<lambda>c. ''overlapValues'' \<in> set (roles c)) cs of
        [] \<Rightarrow> - 1
      | c # rest \<Rightarrow> index (last (c # rest)))"
    unfolding getOverlapIndex_def
    by (cases cs) (simp_all only: foldl_last_match option.case, simp_all)
  from a b getDataValueForOverlapValue_find[of vals k] show ?thesis by blast
qed

section \<open>Properties of the builder\<close>

text \<open>What the builder returns for a data view that passes the gate.\<close>

lemma acceptedViewD:
  assumes "acceptedView options = Some (dv, cat, dataValue, rest)"
  shows "\<exists>dvs c cats src.
           dataViews options = Some (dv # dvs) \<and> categorical dv = Some c \<and>
           categories c = Some (cat # cats) \<and> csource cat = Some src \<and>
           valueColumns c = Some (dataValue # rest)"
  using assms
  by (auto simp: acceptedView_def split: option.splits list.splits)

lemma visualTransform_accepted:
  assumes "acceptedView options = Some (dv, cat, dataValue, rest)"
  shows "visualTransform h options =
     (let overlapDataValue = overlapDataValueOf (metadata dv) (dataValue # rest);
          sett = buildSettings (objects (metadata dv));
          len = max (length (cvalues cat)) (length (vvalues dataValue));
          dmax = (if js_le (toNumber (maxLocal dataValue)) (Math_max overlapDataValue)
                  then Num (Math_max overlapDataValue) else maxLocal dataValue)
      in (case columns (metadata dv) of
            None \<Rightarrow>
              if 0 < len then Inl TypeError
              else Inr \<lparr> dataPoints = [], dataMax = dmax, widthMax = 0, settings = sett \<rparr>
          | Some cols \<Rightarrow>
              Inr \<lparr> dataPoints =
                      map (buildDataPoint h cat dataValue rest cols overlapDataValue sett) [0..<len],
                    dataMax = dmax, widthMax = 0, settings = sett \<rparr>))"
proof -
  from acceptedViewD[OF assms] obtain dvs c cats src where
    "dataViews options = Some (dv # dvs)" "categorical dv = Some c"
    "categories c = Some (cat # cats)" "csource cat = Some src"
    "valueColumns c = Some (dataValue # rest)" by blast
  then show ?thesis by (simp add: visualTransform_def Let_def)
qed

lemma visualTransform_dataMax:
  assumes "acceptedView options = Some (dv, cat, dataValue, rest)"
      and "visualTransform h options = Inr vm"
  shows "dataMax vm =
     (if js_le (toNumber (maxLocal dataValue))
               (Math_max (overlapDataValueOf (metadata dv) (dataValue # rest)))
      then Num (Math_max (overlapDataValueOf (metadata dv) (dataValue # rest)))
      else maxLocal dataValue)"
  using assms(2) unfolding visualTransform_accepted[OF assms(1)]
  by (auto simp: Let_def split: option.splits if_splits)

lemma visualTransform_length:
  assumes "acceptedView options = Some (dv, cat, dataValue, rest)"
      and "visualTransform h options = Inr vm"
  shows "length (dataPoints vm) = max (length (cvalues cat)) (length (vvalues dataValue))"
  using assms(2) unfolding visualTransform_accepted[OF assms(1)]
  by (auto simp: Let_def split: option.splits if_splits)

lemma visualTransform_point:
  assumes "acceptedView options = Some (dv, cat, dataValue, rest)"
      and "visualTransform h options = Inr vm"
      and "i < length (dataPoints vm)"
  shows "dpValue (dataPoints vm ! i) = at_prim (vvalues dataValue) i \<and>
         category (dataPoints vm ! i) = category_label (cvalues cat) i"
  using assms(2,3) unfolding visualTransform_accepted[OF assms(1)]
  by (auto simp: Let_def buildDataPoint_def split: option.splits if_splits)

text \<open>The maximum of the overlap series.\<close>

lemma Math_max_Nil: "Math_max [] = NegInf"
  by (simp add: Math_max_def)

lemma js_le_NegInf: "js_le x NegInf = (x = NegInf)"
  by (cases x) (simp_all add: js_le_def)

lemma js_max2_props:
  assumes "a \<noteq> NaN" "b \<noteq> NaN"
  shows "js_max2 a b \<noteq> NaN \<and> js_le a (js_max2 a b) \<and> js_le b (js_max2 a b)"
  using assms by (cases a; cases b) (auto simp: js_le_def)

lemma js_le_trans: "js_le a b \<Longrightarrow> js_le b c \<Longrightarrow> js_le a c"
  by (cases a; cases b; cases c) (auto simp: js_le_def)

lemma js_le_refl: "a \<noteq> NaN \<Longrightarrow> js_le a a"
  by (cases a) (auto simp: js_le_def)

lemma foldl_max_props:
  assumes "a \<noteq> NaN" "\<forall>v\<in>set xs. toNumber v \<noteq> NaN"
  shows "foldl (\<lambda>acc v. js_max2 acc (toNumber v)) a xs \<noteq> NaN \<and>
         js_le a (foldl (\<lambda>acc v. js_max2 acc (toNumber v)) a xs) \<and>
         (\<forall>v\<in>set xs. js_le (toNumber v) (foldl (\<lambda>acc v. js_max2 acc (toNumber v)) a xs))"
  using assms
proof (induction xs arbitrary: a)
  case Nil
  then show ?case by (simp add: js_le_refl)
next
  case (Cons x xs)
  let ?b = "js_max2 a (toNumber x)"
  from Cons.prems have x: "toNumber x \<noteq> NaN" by simp
  from js_max2_props[OF Cons.prems(1) x]
  have b: "?b \<noteq> NaN" "js_le a ?b" "js_le (toNumber x) ?b" by auto
  from Cons.IH[OF b(1)] Cons.prems(2)
  have ih: "foldl (\<lambda>acc v. js_max2 acc (toNumber v)) ?b xs \<noteq> NaN"
    "js_le ?b (foldl (\<lambda>acc v. js_max2 acc (toNumber v)) ?b xs)"
    "\<forall>v\<in>set xs. js_le (toNumber v) (foldl (\<lambda>acc v. js_max2 acc (toNumber v)) ?b xs)"
    by auto
  show ?case
    using ih b js_le_trans by auto
qed

lemma Math_max_props:
  assumes "\<forall>v\<in>set xs. toNumber v \<noteq> NaN"
  shows "Math_max xs \<noteq> NaN \<and> (\<forall>v\<in>set xs. js_le (toNumber v) (Math_max xs))"
  using foldl_max_props[of NegInf xs] assms by (simp add: Math_max_def)

lemma js_le_total: "a \<noteq> NaN \<Longrightarrow> b \<noteq> NaN \<Longrightarrow> \<not> js_le a b \<Longrightarrow> js_le b a"
  by (cases a; cases b) (auto simp: js_le_def)

text \<open>The sample data view passes the gate, and its overlap series is the one given.\<close>

lemma acceptedView_sample:
  "acceptedView (sampleOptions cats vals mx overlap) =
     Some (sampleView cats vals mx overlap, sampleCategory cats, samplePrimary vals mx,
           sampleRest overlap)"
  by (simp add: acceptedView_def sampleOptions_def sampleView_def sampleCategory_def)

lemma overlapDataValueOf_sample:
  "overlapDataValueOf (metadata (sampleView cats vals mx overlap))
     (samplePrimary vals mx # sampleRest overlap) =
     (case overlap of None \<Rightarrow> [] | Some ov \<Rightarrow> ov)"
  by (cases overlap)
     (simp_all add: overlapDataValueOf_def sampleView_def sampleMetadata_def sampleRest_def
        samplePrimary_def getOverlapIndex_def getDataValueForOverlapValue_def
        categoryCol_def measureCol_def overlapCol_def)

lemma visualTransform_sample:
  "\<exists>vm. visualTransform h (sampleOptions cats vals mx overlap) = Inr vm"
  unfolding visualTransform_accepted[OF acceptedView_sample]
  by (simp add: sampleView_def sampleMetadata_def Let_def)

lemma builtDataMax_sample:
  "builtDataMax h (sampleOptions cats vals mx overlap) =
     Inr (if js_le (toNumber mx) (Math_max (case overlap of None \<Rightarrow> [] | Some ov \<Rightarrow> ov))
          then Num (Math_max (case overlap of None \<Rightarrow> [] | Some ov \<Rightarrow> ov))
          else mx)"
proof -
  from visualTransform_sample obtain vm where
    vm: "visualTransform h (sampleOptions cats vals mx overlap) = Inr vm" by blast
  have "dataMax vm =
     (if js_le (toNumber (maxLocal (samplePrimary vals mx)))
               (Math_max (case overlap of None \<Rightarrow> [] | Some ov \<Rightarrow> ov))
      then Num (Math_max (case overlap of None \<Rightarrow> [] | Some ov \<Rightarrow> ov))
      else maxLocal (samplePrimary vals mx))"
    using visualTransform_dataMax[OF acceptedView_sample vm]
    unfolding overlapDataValueOf_sample .
  then show ?thesis
    by (simp add: builtDataMax_def vm samplePrimary_def)
qed

text \<open>
  Claim C1, as amended.  For a data view that passes the gate and for which the
  builder returns a view model, if the overlap series is absent or empty (the builder
  reads an empty overlap array), \<open>dataMax\<close> is the declared maximum \<open>maxLocal\<close> of the
  primary series, whatever that is.  The \<open>-Infinity\<close> that the maximum of the empty
  array yields never reaches it, but nothing checks the declared maximum: \<open>dataMax\<close>
  is \<open>-Infinity\<close> or NaN exactly when the declared maximum is, and \<open>undefined\<close> exactly
  when the declared maximum is absent.
\<close>

theorem dataMax_without_overlap:
  assumes "acceptedView options = Some (dv, cat, dataValue, rest)"
      and "visualTransform h options = Inr vm"
      and "overlapDataValueOf (metadata dv) (dataValue # rest) = []"
  shows "dataMax vm = maxLocal dataValue \<and>
         (dataMax vm \<in> {Num NaN, Num NegInf}) = (maxLocal dataValue \<in> {Num NaN, Num NegInf}) \<and>
         (dataMax vm = Undefined) = (maxLocal dataValue = Undefined)"
proof -
  have "dataMax vm = (if toNumber (maxLocal dataValue) = NegInf then Num NegInf else maxLocal dataValue)"
    using visualTransform_dataMax[OF assms(1,2)] by (simp add: assms(3) Math_max_Nil js_le_NegInf)
  moreover have "toNumber (maxLocal dataValue) = NegInf \<Longrightarrow> maxLocal dataValue = Num NegInf"
    by (cases "maxLocal dataValue") simp_all
  ultimately have "dataMax vm = maxLocal dataValue" by auto
  then show ?thesis by simp
qed

theorem dataMax_without_overlap_witness:
  "\<exists>vm. visualTransform sampleHost
            (sampleOptions [''A'', ''B'', ''C''] [num 10, num 20, num 30] (num 30) None) = Inr vm \<and>
        dataMax vm = num 30 \<and> dataMax vm \<notin> {Num NaN, Num NegInf} \<and> dataMax vm \<noteq> Undefined"
proof -
  let ?o = "sampleOptions [''A'', ''B'', ''C''] [num 10, num 20, num 30] (num 30) None"
  from visualTransform_sample obtain vm where vm: "visualTransform sampleHost ?o = Inr vm"
    by blast
  have e: "overlapDataValueOf (metadata (sampleView [''A'', ''B'', ''C''] [num 10, num 20, num 30] (num 30) None))
             (samplePrimary [num 10, num 20, num 30] (num 30) # sampleRest None) = []"
    by (simp add: overlapDataValueOf_sample)
  from dataMax_without_overlap[OF acceptedView_sample vm e]
  have "dataMax vm = num 30 \<and> dataMax vm \<notin> {Num NaN, Num NegInf} \<and> dataMax vm \<noteq> Undefined"
    by (simp add: samplePrimary_def num_def)
  with vm show ?thesis by blast
qed

theorem dataMax_without_overlap_counterexample:
  "overlapDataValueOf
     (metadata (sampleView [''A'', ''B'', ''C''] [num 10, num 20, num 30] (Num NegInf) None))
     (samplePrimary [num 10, num 20, num 30] (Num NegInf) # sampleRest None) = [] \<and>
   builtDataMax sampleHost
     (sampleOptions [''A'', ''B'', ''C''] [num 10, num 20, num 30] (Num NegInf) None)
     = Inr (Num NegInf) \<and>
   builtDataMax sampleHost
     (sampleOptions [''A'', ''B'', ''C''] [num 10, num 20, num 30] (Num NaN) None)
     = Inr (Num NaN) \<and>
   builtDataMax sampleHost
     (sampleOptions [''A'', ''B'', ''C''] [num 10, num 20, num 30] Undefined None)
     = Inr Undefined \<and>
   toNumber Undefined = NaN"
  by (simp add: overlapDataValueOf_sample builtDataMax_sample Math_max_def js_le_def)

text \<open>
  Claim C3, as amended.  The builder never looks at the primary values when it
  computes \<open>dataMax\<close>: it takes the declared maximum \<open>maxLocal\<close> and the maximum of the
  overlap series.  So, when the declared maximum is a number and no overlap value is
  NaN or undefined, \<open>dataMax\<close> is at least the declared maximum, hence at least every
  primary value that the declared maximum bounds, and at least every overlap value.
  With a declared maximum below a primary value, or none, the claim as stated fails.
\<close>

theorem dataMax_bounds:
  assumes "acceptedView options = Some (dv, cat, dataValue, rest)"
      and "visualTransform h options = Inr vm"
      and "toNumber (maxLocal dataValue) \<noteq> NaN"
      and "\<forall>v\<in>set (overlapDataValueOf (metadata dv) (dataValue # rest)). toNumber v \<noteq> NaN"
  shows "js_ge (toNumber (dataMax vm)) (toNumber (maxLocal dataValue)) \<and>
         (\<forall>v\<in>set (vvalues dataValue).
            js_le (toNumber v) (toNumber (maxLocal dataValue)) \<longrightarrow>
            js_ge (toNumber (dataMax vm)) (toNumber v)) \<and>
         (\<forall>v\<in>set (overlapDataValueOf (metadata dv) (dataValue # rest)).
            js_ge (toNumber (dataMax vm)) (toNumber v))"
proof -
  let ?ov = "overlapDataValueOf (metadata dv) (dataValue # rest)"
  let ?m = "toNumber (maxLocal dataValue)"
  from Math_max_props[OF assms(4)]
  have mm: "Math_max ?ov \<noteq> NaN" "\<forall>v\<in>set ?ov. js_le (toNumber v) (Math_max ?ov)" by auto
  have dm: "toNumber (dataMax vm) = (if js_le ?m (Math_max ?ov) then Math_max ?ov else ?m)"
    using visualTransform_dataMax[OF assms(1,2)] by simp
  have a: "js_le ?m (toNumber (dataMax vm))"
    using dm assms(3) by (simp add: js_le_refl)
  have b: "js_le (Math_max ?ov) (toNumber (dataMax vm))"
    using dm mm(1) assms(3) by (auto simp: js_le_refl js_le_total)
  show ?thesis
    using a b mm(2) js_le_trans unfolding js_ge_def by blast
qed

theorem dataMax_bounds_witness:
  "(\<exists>vm. visualTransform sampleHost
            (sampleOptions [''A'', ''B'', ''C''] [num 10, num 20, num 30] (num 30)
               (Some [num 5, num 25, num 15])) = Inr vm \<and>
         dataMax vm = num 30 \<and>
         js_ge (toNumber (dataMax vm)) (Fin 30) \<and> js_ge (toNumber (dataMax vm)) (Fin 25)) \<and>
   (\<exists>vm. visualTransform sampleHost
            (sampleOptions [''A'', ''B'', ''C''] [num 10, num 20, num 10] (num 20)
               (Some [num 5, num 25, num 15])) = Inr vm \<and>
         dataMax vm = num 25 \<and>
         js_ge (toNumber (dataMax vm)) (Fin 20) \<and> js_ge (toNumber (dataMax vm)) (Fin 25))"
proof -
  have one: "\<exists>vm. visualTransform sampleHost
            (sampleOptions [''A'', ''B'', ''C''] [num 10, num 20, p] (num m)
               (Some [num 5, num 25, num 15])) = Inr vm \<and>
         dataMax vm = (if m \<le> 25 then num 25 else num m) \<and>
         js_ge (toNumber (dataMax vm)) (Fin m) \<and> js_ge (toNumber (dataMax vm)) (Fin 25)"
    for p m
  proof -
    let ?o = "sampleOptions [''A'', ''B'', ''C''] [num 10, num 20, p] (num m)
               (Some [num 5, num 25, num 15])"
    from visualTransform_sample obtain vm where vm: "visualTransform sampleHost ?o = Inr vm"
      by blast
    have "(Inr (dataMax vm) :: error + prim) = builtDataMax sampleHost ?o"
      by (simp add: builtDataMax_def vm)
    also have "\<dots> = Inr (if m \<le> 25 then num 25 else num m)"
      unfolding builtDataMax_sample
      by (simp add: num_def Math_max_def js_le_def)
    finally have dm: "dataMax vm = (if m \<le> 25 then num 25 else num m)"
      by simp
    have h1: "toNumber (maxLocal (samplePrimary [num 10, num 20, p] (num m))) \<noteq> NaN"
      by (simp add: samplePrimary_def num_def)
    have h2: "\<forall>v\<in>set (overlapDataValueOf
                (metadata (sampleView [''A'', ''B'', ''C''] [num 10, num 20, p] (num m)
                   (Some [num 5, num 25, num 15])))
                (samplePrimary [num 10, num 20, p] (num m) #
                 sampleRest (Some [num 5, num 25, num 15]))). toNumber v \<noteq> NaN"
      unfolding overlapDataValueOf_sample by (simp add: num_def)
    from dataMax_bounds[OF acceptedView_sample vm h1 h2, unfolded overlapDataValueOf_sample]
    have "js_ge (toNumber (dataMax vm)) (Fin m) \<and> js_ge (toNumber (dataMax vm)) (Fin 25)"
      by (simp add: samplePrimary_def num_def)
    with vm dm show ?thesis by blast
  qed
  from one[of "num 30" 30] one[of "num 10" 20] show ?thesis by simp
qed

theorem dataMax_bounds_counterexample:
  "builtDataMax sampleHost
     (sampleOptions [''A'', ''B'', ''C''] [num 10, num 20, num 30] (num 5) None) = Inr (num 5) \<and>
   \<not> js_ge (toNumber (num 5)) (toNumber (num 30)) \<and>
   builtDataMax sampleHost
     (sampleOptions [''A'', ''B'', ''C''] [num 10, num 20, num 30] Undefined
        (Some [num 5, num 25, num 15])) = Inr Undefined \<and>
   \<not> js_ge (toNumber Undefined) (toNumber (num 30)) \<and>
   \<not> js_ge (toNumber Undefined) (toNumber (num 25))"
  by (simp add: builtDataMax_sample num_def Math_max_def js_le_def js_ge_def)

lemma builtCategoryFields_sample:
  "builtCategoryFields h (sampleOptions cats vals mx None) =
     Inr (map (\<lambda>i. FString (category_label cats i)) [0..<max (length cats) (length vals)])"
  unfolding builtCategoryFields_def visualTransform_accepted[OF acceptedView_sample]
  by (simp add: sampleView_def sampleMetadata_def Let_def buildDataPoint_def sampleCategory_def
      samplePrimary_def categoryField_def comp_def)

text \<open>
  Claim C4, as amended.  For a data view that passes the gate and for which the
  builder returns a view model, there are as many data points as the longer of the
  category rows and the primary value rows.  Row \<open>i\<close> carries the primary value and
  the category of that row; past the end of the primary series the value field holds
  \<open>undefined\<close>; past the end of the category column the category read is \<open>undefined\<close>
  and the category field holds its string form, the string \<open>undefined\<close>, not an
  undefined value.
\<close>

theorem data_points_rows:
  assumes "acceptedView options = Some (dv, cat, dataValue, rest)"
      and "visualTransform h options = Inr vm"
  shows "length (dataPoints vm) = max (length (cvalues cat)) (length (vvalues dataValue)) \<and>
         (\<forall>i<length (dataPoints vm).
            (if i < length (vvalues dataValue)
             then dpValue (dataPoints vm ! i) = vvalues dataValue ! i
             else dpValue (dataPoints vm ! i) = Undefined \<and>
                  valueField (dataPoints vm ! i) = FUndefined) \<and>
            (if i < length (cvalues cat)
             then category (dataPoints vm ! i) = cvalues cat ! i
             else category_at (cvalues cat) i = None \<and>
                  category (dataPoints vm ! i) = ''undefined'' \<and>
                  categoryField (dataPoints vm ! i) = FString ''undefined''))"
  using visualTransform_length[OF assms] visualTransform_point[OF assms]
  by (auto simp: at_prim_def category_label_def category_at_def valueField_def categoryField_def)

theorem data_points_rows_witness:
  "(\<exists>vm. visualTransform sampleHost (sampleOptions [''A''] [num 10, num 20] (num 20) None) = Inr vm \<and>
         length (dataPoints vm) = 2 \<and>
         dpValue (dataPoints vm ! 0) = num 10 \<and> category (dataPoints vm ! 0) = ''A'' \<and>
         dpValue (dataPoints vm ! 1) = num 20 \<and> category (dataPoints vm ! 1) = ''undefined'') \<and>
   (\<exists>vm. visualTransform sampleHost (sampleOptions [''A'', ''B''] [num 10] (num 10) None) = Inr vm \<and>
         length (dataPoints vm) = 2 \<and>
         dpValue (dataPoints vm ! 1) = Undefined \<and> category (dataPoints vm ! 1) = ''B'')"
proof -
  have one: "\<exists>vm. visualTransform sampleHost (sampleOptions cats vals mx None) = Inr vm \<and>
         length (dataPoints vm) = max (length cats) (length vals) \<and>
         (\<forall>i<length (dataPoints vm).
            (if i < length vals then dpValue (dataPoints vm ! i) = vals ! i
             else dpValue (dataPoints vm ! i) = Undefined) \<and>
            (if i < length cats then category (dataPoints vm ! i) = cats ! i
             else category (dataPoints vm ! i) = ''undefined''))" for cats vals mx
  proof -
    from visualTransform_sample obtain vm where
      vm: "visualTransform sampleHost (sampleOptions cats vals mx None) = Inr vm" by blast
    from data_points_rows[OF acceptedView_sample vm] vm show ?thesis
      by (auto simp: sampleCategory_def samplePrimary_def)
  qed
  from one[of "[''A'']" "[num 10, num 20]" "num 20"] one[of "[''A'', ''B'']" "[num 10]" "num 10"]
  show ?thesis by (auto simp: numeral_2_eq_2)
qed

theorem data_points_rows_counterexample:
  "category_at [''A''] 1 = None \<and>
   builtCategoryFields sampleHost (sampleOptions [''A''] [num 10, num 20] (num 20) None)
     = Inr [FString ''A'', FString ''undefined''] \<and>
   FString ''undefined'' \<noteq> FUndefined"
  unfolding builtCategoryFields_sample
  by (simp add: category_label_def category_at_def upt_rec)

text \<open>
  Claim C5.  The gate reads \<^verbatim>\<open>categories[0].source\<close> without testing that the array has
  an element, and the loop header reads \<^verbatim>\<open>values[0].values\<close> likewise: a data view
  whose \<open>categories\<close> is the empty array raises in the gate, and one whose value
  columns are the empty array raises after it, where the claim has the empty view
  model returned.
\<close>

theorem empty_arrays_raise:
  "visualTransform h
     \<lparr> dataViews = Some (\<lparr> categorical = Some \<lparr> categories = Some [], valueColumns = vals \<rparr>,
                            metadata = md \<rparr> # dvs),
       viewport = vp \<rparr> = Inl TypeError \<and>
   visualTransform h
     \<lparr> dataViews = Some (\<lparr> categorical = Some
                              \<lparr> categories = Some (\<lparr> csource = Some src, cvalues = cs, cfill = fs \<rparr> # cats),
                                valueColumns = Some [] \<rparr>,
                            metadata = md \<rparr> # dvs),
       viewport = vp \<rparr> = Inl TypeError"
  by (simp add: visualTransform_def)

text \<open>
  Where one of the fields the gate tests is absent, the builder returns the empty
  view model: no data view, no categorical part, no categories, a first category
  column without source metadata, no value columns.
\<close>

theorem absent_fields_empty_view_model:
  "visualTransform h \<lparr> dataViews = None, viewport = vp \<rparr> = Inr emptyViewModel \<and>
   visualTransform h \<lparr> dataViews = Some [], viewport = vp \<rparr> = Inr emptyViewModel \<and>
   visualTransform h
     \<lparr> dataViews = Some (\<lparr> categorical = None, metadata = md \<rparr> # dvs), viewport = vp \<rparr>
     = Inr emptyViewModel \<and>
   visualTransform h
     \<lparr> dataViews = Some (\<lparr> categorical = Some \<lparr> categories = None, valueColumns = vals \<rparr>,
                            metadata = md \<rparr> # dvs),
       viewport = vp \<rparr> = Inr emptyViewModel \<and>
   visualTransform h
     \<lparr> dataViews = Some (\<lparr> categorical = Some
                              \<lparr> categories = Some (\<lparr> csource = None, cvalues = cs, cfill = fs \<rparr> # cats),
                                valueColumns = vals \<rparr>,
                            metadata = md \<rparr> # dvs),
       viewport = vp \<rparr> = Inr emptyViewModel \<and>
   visualTransform h
     \<lparr> dataViews = Some (\<lparr> categorical = Some
                              \<lparr> categories = Some (\<lparr> csource = Some src, cvalues = cs, cfill = fs \<rparr> # cats),
                                valueColumns = None \<rparr>,
                            metadata = md \<rparr> # dvs),
       viewport = vp \<rparr> = Inr emptyViewModel \<and>
   dataPoints (emptyViewModel :: 'sid IBarChartViewModel) = [] \<and>
   dataMax (emptyViewModel :: 'sid IBarChartViewModel) = Num (Fin 0) \<and>
   settings (emptyViewModel :: 'sid IBarChartViewModel) = emptySettings"
  by (simp add: visualTransform_def emptyViewModel_def)

section \<open>Properties of double-precision arithmetic\<close>

text \<open>
  A number whose magnitude, scaled by \<open>2 ^ k\<close>, lies between \<open>2 ^ 52\<close> and \<open>2 ^ 53\<close> has
  the exponent \<open>52 - k\<close>: its rounding is the scaled number rounded to an integer,
  scaled back.
\<close>

lemma fl_eval:
  fixes k :: nat
  assumes "2 ^ 52 \<le> \<bar>x\<bar> * 2 ^ k" and "\<bar>x\<bar> * 2 ^ k < 2 ^ 53"
  shows "fl x = of_int (roundHalfEven (x * 2 ^ k)) / 2 ^ k"
proof -
  have x0: "x \<noteq> 0" using assms(1) by auto
  then have ax: "0 < \<bar>x\<bar>" by simp
  have lo: "2 powr (52 - real k) \<le> \<bar>x\<bar>"
  proof -
    have "2 powr (52 - real k) = 2 ^ 52 / 2 ^ k"
      by (simp add: powr_diff powr_realpow)
    also have "\<dots> \<le> \<bar>x\<bar>" using assms(1) by (simp add: divide_le_eq)
    finally show ?thesis .
  qed
  have hi: "\<bar>x\<bar> < 2 powr (53 - real k)"
  proof -
    have "\<bar>x\<bar> < 2 ^ 53 / 2 ^ k" using assms(2) by (simp add: less_divide_eq)
    also have "\<dots> = 2 powr (53 - real k)"
      by (simp add: powr_diff powr_realpow)
    finally show ?thesis .
  qed
  have l1: "52 - real k \<le> log 2 \<bar>x\<bar>"
    using lo ax by (simp add: le_log_iff)
  have l2: "log 2 \<bar>x\<bar> < 53 - real k"
    using hi ax by (simp add: log_less_iff)
  have e: "\<lfloor>log 2 \<bar>x\<bar>\<rfloor> = 52 - int k"
    using l1 l2 by (intro floor_unique) auto
  have p: "(2::real) powi (- int k) = 1 / 2 ^ k"
    by (simp add: power_int_minus field_simps)
  show ?thesis
    using x0 by (simp add: fl_def e p Let_def)
qed

text \<open>
  The rounding moves a positive number by at most half a unit in the last place,
  which is at most the number divided by \<open>2 ^ 53\<close>.  So of two quotients of the
  same positive numerator the one with the visibly smaller divisor stays the larger
  after rounding.
\<close>

lemma roundHalfEven_near: "\<bar>of_int (roundHalfEven y) - y\<bar> \<le> 1 / 2"
  unfolding roundHalfEven_def Let_def by (auto simp: abs_if) linarith+

lemma fl_error:
  assumes "0 < x"
  shows "\<bar>fl x - x\<bar> \<le> x / 2 ^ 53"
proof -
  define e where "e = \<lfloor>log 2 x\<rfloor>"
  define u :: real where "u = 2 powi (e - 52)"
  have u0: "0 < u" by (simp add: u_def)
  have "real_of_int e \<le> log 2 x" by (simp add: e_def)
  then have "2 powr real_of_int e \<le> x" using assms by (simp add: le_log_iff)
  then have lo: "2 powi e \<le> x" by (simp add: powr_real_of_int')
  have ue: "u = 2 powi e / 2 ^ 52" by (simp add: u_def power_int_diff)
  have f: "fl x = of_int (roundHalfEven (x / u)) * u"
    using assms by (simp add: fl_def e_def u_def Let_def)
  have "fl x - x = (of_int (roundHalfEven (x / u)) - x / u) * u"
    using u0 by (simp add: f field_simps)
  then have "\<bar>fl x - x\<bar> = \<bar>of_int (roundHalfEven (x / u)) - x / u\<bar> * u"
    using u0 by (simp add: abs_mult)
  also have "\<dots> \<le> 1 / 2 * u"
    using roundHalfEven_near[of "x / u"] u0 by (intro mult_right_mono) auto
  also have "\<dots> = 2 powi e / 2 ^ 53" by (simp add: ue)
  also have "\<dots> \<le> x / 2 ^ 53" using lo by (simp add: divide_right_mono)
  finally show ?thesis .
qed

lemma fdiv_less:
  assumes "0 < h" and "0 < d" and "d * 9007199254740993 < c * 9007199254740991"
  shows "fdiv h c < fdiv h d"
proof -
  have "0 < d * 9007199254740993" using assms(2) by simp
  then have "0 < c * 9007199254740991" using assms(3) by linarith
  then have c0: "0 < c" by (simp add: zero_less_mult_iff)
  have a: "fdiv h c \<le> h / c + (h / c) / 2 ^ 53"
    using fl_error[of "h / c"] assms(1) c0 by (simp add: fdiv_def abs_le_iff)
  have b: "h / d - (h / d) / 2 ^ 53 \<le> fdiv h d"
    using fl_error[of "h / d"] assms(1,2) by (simp add: fdiv_def abs_le_iff)
  have "h / c + (h / c) / 2 ^ 53 = h * (9007199254740993 / (c * 2 ^ 53))"
    using c0 by (simp add: field_simps)
  also have "\<dots> < h * (9007199254740991 / (d * 2 ^ 53))"
    using assms c0 by (intro mult_strict_left_mono) (simp_all add: field_simps)
  also have "\<dots> = h / d - (h / d) / 2 ^ 53"
    using assms(2) by (simp add: field_simps)
  finally show ?thesis using a b by linarith
qed

text \<open>
  The doubles of the constants, and the results of the operations that the layout
  performs at the viewport heights looked at below.
\<close>

lemma barPadding_value: "barPadding = 5404319552844595 / 36028797018963968"
  unfolding barPadding_def by (subst fl_eval[where k=55]) (simp_all add: roundHalfEven_def)

lemma xScalePadding_value: "xScalePadding = 5404319552844595 / 36028797018963968"
  unfolding xScalePadding_def by (subst fl_eval[where k=55]) (simp_all add: roundHalfEven_def)

lemma outerPaddingInit_value: "outerPaddingInit = - (3602879701896397 / 36028797018963968)"
  unfolding outerPaddingInit_def by (subst fl_eval[where k=56]) (simp_all add: roundHalfEven_def)

lemma dbl_1: "fdiv 60 3 = 20"
  unfolding fdiv_def by (subst fl_eval[where k=48]) (simp_all add: roundHalfEven_def)

lemma dbl_2: "fmul 2 (1 / 2) = 1"
  unfolding fmul_def by (subst fl_eval[where k=52]) (simp_all add: roundHalfEven_def)

lemma dbl_3: "fsub 1 (5404319552844595 / 36028797018963968) = 7656119366529843 / 9007199254740992"
  unfolding fsub_def by (subst fl_eval[where k=53]) (simp_all add: roundHalfEven_def)

lemma dbl_4: "fadd (7656119366529843 / 9007199254740992) 1 = 4165829655317709 / 2251799813685248"
  unfolding fadd_def by (subst fl_eval[where k=52]) (simp_all add: roundHalfEven_def)

lemma dbl_5: "fdiv 60 (4165829655317709 / 2251799813685248) = 4564459081794421 / 140737488355328"
  unfolding fdiv_def by (subst fl_eval[where k=47]) (simp_all add: roundHalfEven_def)

lemma dbl_6: "fmul (- 2) (- (3602879701896397 / 36028797018963968)) = 3602879701896397 / 18014398509481984"
  unfolding fmul_def by (subst fl_eval[where k=55]) (simp_all add: roundHalfEven_def)

lemma dbl_7: "fsub (3602879701896397 / 18014398509481984) (5404319552844595 / 36028797018963968) = 1801439850948199 / 36028797018963968"
  unfolding fsub_def by (subst fl_eval[where k=57]) (simp_all add: roundHalfEven_def)

lemma dbl_8: "fadd (1801439850948199 / 36028797018963968) 1 = 4728779608739021 / 4503599627370496"
  unfolding fadd_def by (subst fl_eval[where k=52]) (simp_all add: roundHalfEven_def)

lemma dbl_9: "fmul (4728779608739021 / 4503599627370496) 30 = 63 / 2"
  unfolding fmul_def by (subst fl_eval[where k=48]) (simp_all add: roundHalfEven_def)

lemma dbl_10: "fadd (- (5404319552844595 / 36028797018963968)) 1 = 7656119366529843 / 9007199254740992"
  unfolding fadd_def by (subst fl_eval[where k=53]) (simp_all add: roundHalfEven_def)

lemma dbl_11: "fmul (7656119366529843 / 9007199254740992) 30 = 51 / 2"
  unfolding fmul_def by (subst fl_eval[where k=48]) (simp_all add: roundHalfEven_def)

lemma dbl_12: "fsub 60 (51 / 2) = 69 / 2"
  unfolding fsub_def by (subst fl_eval[where k=47]) (simp_all add: roundHalfEven_def)

lemma dbl_13: "fmul 2 30 = 60"
  unfolding fmul_def by (subst fl_eval[where k=47]) (simp_all add: roundHalfEven_def)

lemma dbl_14: "fdiv (69 / 2) 60 = 2589569785738035 / 4503599627370496"
  unfolding fdiv_def by (subst fl_eval[where k=53]) (simp_all add: roundHalfEven_def)

lemma dbl_15: "fsub 60 5 = 55"
  unfolding fsub_def by (subst fl_eval[where k=47]) (simp_all add: roundHalfEven_def)

lemma dbl_16: "fmul (2589569785738035 / 4503599627370496) 2 = 2589569785738035 / 2251799813685248"
  unfolding fmul_def by (subst fl_eval[where k=52]) (simp_all add: roundHalfEven_def)

lemma dbl_17: "fadd (7656119366529843 / 9007199254740992) (2589569785738035 / 2251799813685248) = 2"
  unfolding fadd_def by (subst fl_eval[where k=52]) (simp_all add: roundHalfEven_def)

lemma dbl_18: "fdiv 55 2 = 55 / 2"
  unfolding fdiv_def by (subst fl_eval[where k=48]) (simp_all add: roundHalfEven_def)

lemma dbl_19: "fmul 27 (7656119366529843 / 9007199254740992) = 6459850715509555 / 281474976710656"
  unfolding fmul_def by (subst fl_eval[where k=48]) (simp_all add: roundHalfEven_def)

lemma dbl_20: "fdiv 20 3 = 7505999378950827 / 1125899906842624"
  unfolding fdiv_def by (subst fl_eval[where k=50]) (simp_all add: roundHalfEven_def)

lemma dbl_21: "fdiv 20 (4165829655317709 / 2251799813685248) = 3042972721196281 / 281474976710656"
  unfolding fdiv_def by (subst fl_eval[where k=49]) (simp_all add: roundHalfEven_def)

lemma dbl_22: "fsub 20 (51 / 2) = - (11 / 2)"
  unfolding fsub_def by (subst fl_eval[where k=50]) (simp_all add: roundHalfEven_def)

lemma dbl_23: "fdiv (- (11 / 2)) 60 = - (6605279453476727 / 72057594037927936)"
  unfolding fdiv_def by (subst fl_eval[where k=56]) (simp_all add: roundHalfEven_def)

lemma dbl_24: "fsub 20 5 = 15"
  unfolding fsub_def by (subst fl_eval[where k=49]) (simp_all add: roundHalfEven_def)

lemma dbl_25: "fmul (- (3602879701896397 / 36028797018963968)) 2 = - (3602879701896397 / 18014398509481984)"
  unfolding fmul_def by (subst fl_eval[where k=55]) (simp_all add: roundHalfEven_def)

lemma dbl_26: "fadd (7656119366529843 / 9007199254740992) (- (3602879701896397 / 18014398509481984)) = 1463669878895411 / 2251799813685248"
  unfolding fadd_def by (subst fl_eval[where k=53]) (simp_all add: roundHalfEven_def)

lemma dbl_27: "fdiv 15 1 = 15"
  unfolding fdiv_def by (subst fl_eval[where k=49]) (simp_all add: roundHalfEven_def)

lemma dbl_28: "fmul 15 (7656119366529843 / 9007199254740992) = 51 / 4"
  unfolding fmul_def by (subst fl_eval[where k=49]) (simp_all add: roundHalfEven_def)

lemma dbl_29: "fdiv 300 3 = 100"
  unfolding fdiv_def by (subst fl_eval[where k=46]) (simp_all add: roundHalfEven_def)

lemma dbl_30: "fadd (7656119366529843 / 9007199254740992) 0 = 7656119366529843 / 9007199254740992"
  unfolding fadd_def by (subst fl_eval[where k=53]) (simp_all add: roundHalfEven_def)

lemma dbl_31: "fdiv 300 (7656119366529843 / 9007199254740992) = 6209006839205647 / 17592186044416"
  unfolding fdiv_def by (subst fl_eval[where k=44]) (simp_all add: roundHalfEven_def)

lemma dbl_32: "fadd (1801439850948199 / 36028797018963968) 0 = 1801439850948199 / 36028797018963968"
  unfolding fadd_def by (subst fl_eval[where k=57]) (simp_all add: roundHalfEven_def)

lemma dbl_33: "fmul (1801439850948199 / 36028797018963968) 30 = 3377699720527873 / 2251799813685248"
  unfolding fmul_def by (subst fl_eval[where k=52]) (simp_all add: roundHalfEven_def)

lemma dbl_34: "fadd (- (5404319552844595 / 36028797018963968)) 0 = - (5404319552844595 / 36028797018963968)"
  unfolding fadd_def by (subst fl_eval[where k=55]) (simp_all add: roundHalfEven_def)

lemma dbl_35: "fmul (- (5404319552844595 / 36028797018963968)) 100 = - 15"
  unfolding fmul_def by (subst fl_eval[where k=49]) (simp_all add: roundHalfEven_def)

lemma dbl_36: "fsub 300 (- 15) = 315"
  unfolding fsub_def by (subst fl_eval[where k=44]) (simp_all add: roundHalfEven_def)

lemma dbl_37: "fmul 2 100 = 200"
  unfolding fmul_def by (subst fl_eval[where k=45]) (simp_all add: roundHalfEven_def)

lemma dbl_38: "fdiv 315 200 = 7093169413108531 / 4503599627370496"
  unfolding fdiv_def by (subst fl_eval[where k=52]) (simp_all add: roundHalfEven_def)

lemma dbl_39: "fsub 300 5 = 295"
  unfolding fsub_def by (subst fl_eval[where k=44]) (simp_all add: roundHalfEven_def)

lemma dbl_40: "fsub 0 (5404319552844595 / 36028797018963968) = - (5404319552844595 / 36028797018963968)"
  unfolding fsub_def by (subst fl_eval[where k=55]) (simp_all add: roundHalfEven_def)

lemma dbl_41: "fmul (7093169413108531 / 4503599627370496) 2 = 7093169413108531 / 2251799813685248"
  unfolding fmul_def by (subst fl_eval[where k=51]) (simp_all add: roundHalfEven_def)

lemma dbl_42: "fadd (- (5404319552844595 / 36028797018963968)) (7093169413108531 / 2251799813685248) = 3"
  unfolding fadd_def by (subst fl_eval[where k=51]) (simp_all add: roundHalfEven_def)

lemma dbl_43: "fdiv 295 3 = 6919593177470293 / 70368744177664"
  unfolding fdiv_def by (subst fl_eval[where k=46]) (simp_all add: roundHalfEven_def)

lemma dbl_44: "fmul 98 (7656119366529843 / 9007199254740992) = 5861716389999411 / 70368744177664"
  unfolding fmul_def by (subst fl_eval[where k=46]) (simp_all add: roundHalfEven_def)

lemma dbl_45: "fdiv 671 3 = 7869571223868757 / 35184372088832"
  unfolding fdiv_def by (subst fl_eval[where k=45]) (simp_all add: roundHalfEven_def)

lemma dbl_46: "fadd (7656119366529843 / 9007199254740992) 17 = 2512164167142605 / 140737488355328"
  unfolding fadd_def by (subst fl_eval[where k=48]) (simp_all add: roundHalfEven_def)

lemma dbl_47: "fdiv 671 (2512164167142605 / 140737488355328) = 1322617012414917 / 35184372088832"
  unfolding fdiv_def by (subst fl_eval[where k=47]) (simp_all add: roundHalfEven_def)

lemma dbl_48: "fadd (1801439850948199 / 36028797018963968) 17 = 4799148352916685 / 281474976710656"
  unfolding fadd_def by (subst fl_eval[where k=48]) (simp_all add: roundHalfEven_def)

lemma dbl_49: "fmul (4799148352916685 / 281474976710656) 30 = 1023 / 2"
  unfolding fmul_def by (subst fl_eval[where k=44]) (simp_all add: roundHalfEven_def)

lemma dbl_50: "fsub 671 5 = 666"
  unfolding fsub_def by (subst fl_eval[where k=43]) (simp_all add: roundHalfEven_def)

lemma dbl_51: "fsub 17 (5404319552844595 / 36028797018963968) = 2371426678787277 / 140737488355328"
  unfolding fsub_def by (subst fl_eval[where k=48]) (simp_all add: roundHalfEven_def)

lemma dbl_52: "fadd (2371426678787277 / 140737488355328) (- (3602879701896397 / 18014398509481984)) = 4686558362232423 / 281474976710656"
  unfolding fadd_def by (subst fl_eval[where k=48]) (simp_all add: roundHalfEven_def)

lemma dbl_53: "fdiv 666 (4686558362232423 / 281474976710656) = 5629499534213119 / 140737488355328"
  unfolding fdiv_def by (subst fl_eval[where k=47]) (simp_all add: roundHalfEven_def)

lemma dbl_54: "fmul 39 (7656119366529843 / 9007199254740992) = 4665447738979123 / 140737488355328"
  unfolding fmul_def by (subst fl_eval[where k=47]) (simp_all add: roundHalfEven_def)

lemma dbl_55: "fdiv 98 3 = 4597424619607381 / 140737488355328"
  unfolding fdiv_def by (subst fl_eval[where k=47]) (simp_all add: roundHalfEven_def)

lemma dbl_56: "fdiv 98 (4165829655317709 / 2251799813685248) = 931910395866361 / 17592186044416"
  unfolding fdiv_def by (subst fl_eval[where k=47]) (simp_all add: roundHalfEven_def)

lemma dbl_57: "fmul (7656119366529843 / 9007199254740992) (4597424619607381 / 140737488355328) = 7815621853332547 / 281474976710656"
  unfolding fmul_def by (subst fl_eval[where k=48]) (simp_all add: roundHalfEven_def)

lemma dbl_58: "fsub 98 (7815621853332547 / 281474976710656) = 4942231466077935 / 70368744177664"
  unfolding fsub_def by (subst fl_eval[where k=46]) (simp_all add: roundHalfEven_def)

lemma dbl_59: "fmul 2 (4597424619607381 / 140737488355328) = 4597424619607381 / 70368744177664"
  unfolding fmul_def by (subst fl_eval[where k=46]) (simp_all add: roundHalfEven_def)

lemma dbl_60: "fdiv (4942231466077935 / 70368744177664) (4597424619607381 / 70368744177664) = 1210342399855821 / 1125899906842624"
  unfolding fdiv_def by (subst fl_eval[where k=52]) (simp_all add: roundHalfEven_def)

lemma dbl_61: "fsub 98 5 = 93"
  unfolding fsub_def by (subst fl_eval[where k=46]) (simp_all add: roundHalfEven_def)

lemma dbl_62: "fmul (1210342399855821 / 1125899906842624) 2 = 1210342399855821 / 562949953421312"
  unfolding fmul_def by (subst fl_eval[where k=51]) (simp_all add: roundHalfEven_def)

lemma dbl_63: "fadd (7656119366529843 / 9007199254740992) (1210342399855821 / 562949953421312) = 6755399441055745 / 2251799813685248"
  unfolding fadd_def by (subst fl_eval[where k=51]) (simp_all add: roundHalfEven_def)

lemma dbl_64: "fdiv 93 (6755399441055745 / 2251799813685248) = 8725724278030335 / 281474976710656"
  unfolding fdiv_def by (subst fl_eval[where k=48]) (simp_all add: roundHalfEven_def)

lemma dbl_65: "fmul 30 (7656119366529843 / 9007199254740992) = 51 / 2"
  unfolding fmul_def by (subst fl_eval[where k=48]) (simp_all add: roundHalfEven_def)

lemma dbl_66: "fdiv 83 3 = 7787474355661483 / 281474976710656"
  unfolding fdiv_def by (subst fl_eval[where k=48]) (simp_all add: roundHalfEven_def)

lemma dbl_67: "fadd (7656119366529843 / 9007199254740992) 2 = 6417629469002957 / 2251799813685248"
  unfolding fadd_def by (subst fl_eval[where k=51]) (simp_all add: roundHalfEven_def)

lemmas dbl_values = barPadding_value xScalePadding_value outerPaddingInit_value
  dbl_1 dbl_2 dbl_3 dbl_4 dbl_5 dbl_6 dbl_7 dbl_8 dbl_9 dbl_10 dbl_11 dbl_12 dbl_13 dbl_14 dbl_15 dbl_16 dbl_17 dbl_18 dbl_19 dbl_20 dbl_21 dbl_22 dbl_23 dbl_24 dbl_25 dbl_26 dbl_27 dbl_28 dbl_29 dbl_30 dbl_31 dbl_32 dbl_33 dbl_34 dbl_35 dbl_36 dbl_37 dbl_38 dbl_39 dbl_40 dbl_41 dbl_42 dbl_43 dbl_44 dbl_45 dbl_46 dbl_47 dbl_48 dbl_49 dbl_50 dbl_51 dbl_52 dbl_53 dbl_54 dbl_55 dbl_56 dbl_57 dbl_58 dbl_59 dbl_60 dbl_61 dbl_62 dbl_63 dbl_64 dbl_65 dbl_66 dbl_67

section \<open>Properties of the layout\<close>

lemma xScaledMinOf_default: "xScaledMinOf (buildSettings None) = 30"
  by (simp add: xScaledMinOf_def xScaledMinDefault_def buildSettings_def getBool_def getNum_def
      getValue_def)

lemma calcHeight_one_row: "calcHeight (buildSettings None) (Suc 0) = 63 / 2"
  by (simp add: calcHeight_def xScaledMinOf_default dbl_values)

lemma updateLayout_60: "updateLayout (buildSettings None) 60 (Suc 0) =
   \<lparr> lay_outerPadding = 2589569785738035 / 4503599627370496, lay_height = 60 \<rparr>"
  by (simp add: updateLayout_def xScaledMinOf_default calcX_def calcHeight_def maxHeightScale_def
      outerPaddingScale_def Let_def dbl_values)

lemma yScaleStep_60: "yScaleStep (buildSettings None) 60 [samplePoint ''A'' (num 10) (Some 0)] = 27"
  by (simp add: yScaleStep_def updateLayout_60 bandStep_def Let_def dbl_values)

lemma updateLayout_20: "updateLayout (buildSettings None) 20 (Suc 0) =
   \<lparr> lay_outerPadding = - (3602879701896397 / 36028797018963968), lay_height = 20 \<rparr>"
  by (simp add: updateLayout_def xScaledMinOf_default calcX_def calcHeight_def maxHeightScale_def
      outerPaddingScale_def Let_def dbl_values)

lemma yScaleStep_20: "yScaleStep (buildSettings None) 20 [samplePoint ''A'' (num 10) (Some 0)] = 15"
  by (simp add: yScaleStep_def updateLayout_20 bandStep_def Let_def dbl_values)

lemma updateLayout_98: "updateLayout (buildSettings None) 98 (Suc 0) =
   \<lparr> lay_outerPadding = 1210342399855821 / 1125899906842624, lay_height = 98 \<rparr>"
  by (simp add: updateLayout_def xScaledMinOf_default calcX_def calcHeight_def maxHeightScale_def
      outerPaddingScale_def Let_def dbl_values)

lemma updateLayout_671: "updateLayout (buildSettings None) 671 17 =
   \<lparr> lay_outerPadding = - (3602879701896397 / 36028797018963968), lay_height = 671 \<rparr>"
  by (simp add: updateLayout_def xScaledMinOf_default calcX_def calcHeight_def maxHeightScale_def
      outerPaddingScale_def Let_def dbl_values)

lemma updateLayout_300: "updateLayout (buildSettings None) 300 0 =
   \<lparr> lay_outerPadding = 7093169413108531 / 4503599627370496, lay_height = 300 \<rparr>"
  by (simp add: updateLayout_def xScaledMinOf_default calcX_def calcHeight_def maxHeightScale_def
      outerPaddingScale_def Let_def dbl_values)

lemma yScaleBandwidth_300:
  "yScaleBandwidth (buildSettings None) 300 ([] :: nat IBarChartDataPoint list) = 83"
  by (simp add: yScaleBandwidth_def updateLayout_300 bandwidth_def bandStep_def Let_def dbl_values)

lemma seventeen_rows:
  "length (sampleRows [''a'', ''b'', ''c'', ''d'', ''e'', ''f'', ''g'', ''h'', ''i'', ''j'', ''k'', ''l'', ''m'', ''n'', ''o'', ''p'', ''q'']) = 17 \<and>
   length (remdups (map category (sampleRows [''a'', ''b'', ''c'', ''d'', ''e'', ''f'', ''g'', ''h'', ''i'', ''j'', ''k'', ''l'', ''m'', ''n'', ''o'', ''p'', ''q'']))) = 17"
  by (simp add: sampleRows_def samplePoint_def)

lemma calcX_few_rows:
  assumes "0 < height" and "n \<le> 2"
  shows "fdiv height maxHeightScale < calcX height n"
proof -
  from assms(2) consider "n = 0" | "n = 1" | "n = 2" by linarith
  then show ?thesis
  proof cases
    case 1
    show ?thesis
      unfolding calcX_def maxHeightScale_def 1 outerPaddingScale_def
      by (simp add: dbl_values) (rule fdiv_less[OF assms(1)], simp_all)
  next
    case 2
    show ?thesis
      unfolding calcX_def maxHeightScale_def 2 outerPaddingScale_def
      by (simp add: dbl_values) (rule fdiv_less[OF assms(1)], simp_all)
  next
    case 3
    show ?thesis
      unfolding calcX_def maxHeightScale_def 3 outerPaddingScale_def
      by (simp add: dbl_values) (rule fdiv_less[OF assms(1)], simp_all)
  qed
qed

text \<open>
  Claim C2.  With one row, the default settings (a minimum of 30) and a viewport
  height of 60 or of 20, the update pass takes the branch \<^verbatim>\<open>calcX > xScaledMax\<close>,
  which sets the outer padding and leaves the height as it is.  At a viewport height
  of 60 it derives the outer padding from the minimum, so that the slot would be the
  minimum if the range of the band scale were the whole height; the range starts at
  5, and the slot is 27 while the height stays 60.  At a viewport height of 20 the
  padding stays at its initial value, the height stays 20 and the slot is 15.  In
  both the slot is below the minimum and the height is not \<open>calcHeight\<close>, where the
  claim has one or the other.
\<close>

theorem one_row_slot_below_floor:
  "xScaledMinOf (buildSettings None) = 30 \<and>
   calcHeight (buildSettings None) (length [samplePoint ''A'' (num 10) (Some 0)]) = 63 / 2 \<and>
   yScaleStep (buildSettings None) 60 [samplePoint ''A'' (num 10) (Some 0)] = 27 \<and>
   lay_height (updateLayout (buildSettings None) 60 (length [samplePoint ''A'' (num 10) (Some 0)])) = 60 \<and>
   \<not> (yScaleStep (buildSettings None) 60 [samplePoint ''A'' (num 10) (Some 0)]
          \<ge> xScaledMinOf (buildSettings None) \<or>
        lay_height (updateLayout (buildSettings None) 60 (length [samplePoint ''A'' (num 10) (Some 0)]))
          = calcHeight (buildSettings None) (length [samplePoint ''A'' (num 10) (Some 0)])) \<and>
   yScaleStep (buildSettings None) 20 [samplePoint ''A'' (num 10) (Some 0)] = 15 \<and>
   lay_height (updateLayout (buildSettings None) 20 (length [samplePoint ''A'' (num 10) (Some 0)])) = 20 \<and>
   \<not> (yScaleStep (buildSettings None) 20 [samplePoint ''A'' (num 10) (Some 0)]
          \<ge> xScaledMinOf (buildSettings None) \<or>
        lay_height (updateLayout (buildSettings None) 20 (length [samplePoint ''A'' (num 10) (Some 0)]))
          = calcHeight (buildSettings None) (length [samplePoint ''A'' (num 10) (Some 0)]))"
  using xScaledMinOf_default calcHeight_one_row updateLayout_60 yScaleStep_60 updateLayout_20
    yScaleStep_20
  by simp

text \<open>
  The two inputs above are not isolated.  With at most two rows and a positive
  viewport height, \<open>calcX\<close> is above a third of the height, so the update pass is in
  the branch that sets the outer padding, and the height of the drawing surface is
  the viewport height whatever the minimum is.
\<close>

theorem few_rows_keep_height:
  "0 < height \<Longrightarrow> n \<le> 2 \<Longrightarrow> lay_height (updateLayout sett height n) = height"
  using calcX_few_rows[of height n] by (simp add: updateLayout_def Let_def)

theorem few_rows_keep_height_witness:
  "(0::real) < 45 \<and> (2::nat) \<le> 2 \<and> lay_height (updateLayout (buildSettings None) 45 2) = 45"
  using few_rows_keep_height[of 45 2 "buildSettings None"] by simp

text \<open>
  The slot follows the doubles of the code, not the reals: at a viewport height of
  98 with one row the quotient of the band scale is just below 31 and the slot is
  30, and at 671 with seventeen rows it is just below 40 and the slot is 39.
\<close>

theorem slot_rounds_as_doubles:
  "yScaleStep (buildSettings None) 98 [samplePoint ''A'' (num 10) (Some 0)] = 30 \<and>
   yScaleStep (buildSettings None) 671 (sampleRows [''a'', ''b'', ''c'', ''d'', ''e'', ''f'', ''g'', ''h'', ''i'', ''j'', ''k'', ''l'', ''m'', ''n'', ''o'', ''p'', ''q'']) = 39"
proof -
  have a: "yScaleStep (buildSettings None) 98 [samplePoint ''A'' (num 10) (Some 0)] = 30"
    by (simp add: yScaleStep_def updateLayout_98 bandStep_def Let_def dbl_values)
  have b: "yScaleStep (buildSettings None) 671 (sampleRows [''a'', ''b'', ''c'', ''d'', ''e'', ''f'', ''g'', ''h'', ''i'', ''j'', ''k'', ''l'', ''m'', ''n'', ''o'', ''p'', ''q'']) = 39"
    unfolding yScaleStep_def seventeen_rows[THEN conjunct1] seventeen_rows[THEN conjunct2]
      updateLayout_671
    by (simp add: bandStep_def Let_def dbl_values)
  from a b show ?thesis by simp
qed

section \<open>Properties of the font size\<close>

text \<open>
  Claim C6.  In an update pass whose settings have the font group: with
  \<open>fontParams.show\<close> off the font size is the bandwidth of the band scale divided by
  three, brought into the range from 8.5 to 40; with it on the font size is the
  user's value, whatever it is.
\<close>

theorem font_size:
  "fontParams sett = Some fp \<Longrightarrow>
   updateFontSize sett height dps =
     Inr (if fp_show fp then fp_fontSize fp
          else max 8.5 (min 40 (fdiv (yScaleBandwidth sett height dps) 3)))"
  by (auto simp: updateFontSize_def fontSizeToUse_def fontScaleFactor_def Let_def)

theorem font_size_witness:
  "fontParams (buildSettings None) = Some \<lparr> fp_show = False, fp_fontSize = 11 \<rparr> \<and>
   yScaleBandwidth (buildSettings None) 300 ([] :: nat IBarChartDataPoint list) = 83 \<and>
   updateFontSize (buildSettings None) 300 ([] :: nat IBarChartDataPoint list) = Inr (fdiv 83 3) \<and>
   fdiv 83 3 = 7787474355661483 / 281474976710656 \<and>
   fontParams (buildSettings (Some [(''fontParams'', [(''show'', PBool True), (''fontSize'', PNum 50)])]))
     = Some \<lparr> fp_show = True, fp_fontSize = 50 \<rparr> \<and>
   updateFontSize (buildSettings (Some [(''fontParams'', [(''show'', PBool True), (''fontSize'', PNum 50)])]))
     300 ([] :: nat IBarChartDataPoint list) = Inr 50"
proof -
  let ?fixed = "buildSettings (Some [(''fontParams'', [(''show'', PBool True), (''fontSize'', PNum 50)])])"
  have a: "fontParams (buildSettings None) = Some \<lparr> fp_show = False, fp_fontSize = 11 \<rparr>"
    by (simp add: buildSettings_def getBool_def getNum_def getValue_def)
  have b: "fontParams ?fixed = Some \<lparr> fp_show = True, fp_fontSize = 50 \<rparr>"
    by (simp add: buildSettings_def getBool_def getNum_def getValue_def)
  from font_size[OF a, of 300 "[] :: nat IBarChartDataPoint list"]
       font_size[OF b, of 300 "[] :: nat IBarChartDataPoint list"] a b
  show ?thesis by (simp add: yScaleBandwidth_300 dbl_values)
qed

section \<open>Properties of the label measurement\<close>














section \<open>Properties of the selection state\<close>

text \<open>
  Claim C7.  After \<open>syncSelectionState\<close> on a selection and a set \<open>S\<close> of selection
  identities, both present, every element keeps its data point, and its fill opacity
  is solid (the default style when \<open>S\<close> is empty, 1 otherwise) exactly when \<open>S\<close> is empty
  or an identity of \<open>S\<close> includes the element's identity; otherwise it is 0.5.
\<close>

theorem selection_opacity:
  "\<exists>els'. syncSelectionState incl (Some els) (Some S) = Some els' \<and>
      length els' = length els \<and>
      (\<forall>i<length els.
         datum (els' ! i) = datum (els ! i) \<and>
         (fillOpacity (els' ! i) = (if S = [] then Unset else Opacity 1))
           = (S = [] \<or> isSelectionIdInArray incl (Some S) (selectionId (datum (els ! i)))) \<and>
         (\<not> (S = [] \<or> isSelectionIdInArray incl (Some S) (selectionId (datum (els ! i))))
            \<longrightarrow> fillOpacity (els' ! i) = Opacity 0.5))"
  by (auto simp: syncSelectionState_def solidOpacity_def transparentOpacity_def)

theorem selection_opacity_witness:
  "syncSelectionState (=)
     (Some [\<lparr> datum = samplePoint ''A'' (num 3) (Some 0), fillOpacity = Unset \<rparr>,
            \<lparr> datum = samplePoint ''B'' (num 5) (Some 1), fillOpacity = Unset \<rparr>])
     (Some [1]) =
   Some [\<lparr> datum = samplePoint ''A'' (num 3) (Some 0), fillOpacity = Opacity 0.5 \<rparr>,
         \<lparr> datum = samplePoint ''B'' (num 5) (Some 1), fillOpacity = Opacity 1 \<rparr>] \<and>
   syncSelectionState (=)
     (Some [\<lparr> datum = samplePoint ''A'' (num 3) (Some 0), fillOpacity = Opacity 0.5 \<rparr>,
            \<lparr> datum = samplePoint ''B'' (num 5) (Some (1::nat)), fillOpacity = Opacity 1 \<rparr>])
     (Some []) =
   Some [\<lparr> datum = samplePoint ''A'' (num 3) (Some 0), fillOpacity = Unset \<rparr>,
         \<lparr> datum = samplePoint ''B'' (num 5) (Some 1), fillOpacity = Unset \<rparr>]"
  using selection_opacity[of "(=)"
      "[\<lparr> datum = samplePoint ''A'' (num 3) (Some 0), fillOpacity = Unset \<rparr>,
        \<lparr> datum = samplePoint ''B'' (num 5) (Some 1), fillOpacity = Unset \<rparr>]" "[1::nat]"]
  by (simp add: syncSelectionState_def isSelectionIdInArray_def samplePoint_def
      solidOpacity_def transparentOpacity_def)

section \<open>Properties of the format pane\<close>

lemma enumerated_group:
  "settingsGroup sett name = Some g \<Longrightarrow>
   \<exists>inst. enumerateObjectInstances sett name = Inr [inst] \<and>
          objectName inst = name \<and>
          map_of (properties inst) =
            (if name = ''generalView''
             then map_of g |` {''barsColor'', ''opacity'', ''overlapColor'', ''textColor''}
             else map_of g)"
  apply (simp add: settingsGroup_def enumerateObjectInstances_def split: if_splits)
         apply (auto simp: fun_eq_iff restrict_map_def)
  done

text \<open>
  Claim C8, as amended.  For each of the eight object names whose group the settings
  have, one instance is returned under that name.  For every name but
  \<open>generalView\<close> its property bag is the group's sub-object, field for field.  For
  \<open>generalView\<close> the bag holds the four fields \<open>barsColor\<close>, \<open>opacity\<close>,
  \<open>overlapColor\<close> and \<open>textColor\<close> with their current values, and neither
  \<open>minHeight\<close> nor \<open>barHeight\<close>.
\<close>

theorem format_pane:
  "settingsGroup sett name = Some g \<Longrightarrow>
   (name \<noteq> ''generalView'' \<longrightarrow> reportsGroup sett name) \<and>
   (\<exists>inst. enumerateObjectInstances sett name = Inr [inst] \<and>
           objectName inst = name \<and>
           map_of (properties inst) =
             (if name = ''generalView''
              then map_of g |` {''barsColor'', ''opacity'', ''overlapColor'', ''textColor''}
              else map_of g))"
proof -
  assume g: "settingsGroup sett name = Some g"
  from enumerated_group[OF g] obtain inst where
    inst: "enumerateObjectInstances sett name = Inr [inst]" "objectName inst = name"
      "map_of (properties inst) =
         (if name = ''generalView''
          then map_of g |` {''barsColor'', ''opacity'', ''overlapColor'', ''textColor''}
          else map_of g)"
    by blast
  have "name \<noteq> ''generalView'' \<longrightarrow> reportsGroup sett name"
    using inst(3) by (simp add: reportsGroup_def g inst(1))
  with inst show ?thesis by blast
qed

theorem format_pane_witness:
  "settingsGroup (buildSettings None) ''barHeight'' = Some [(''show'', PBool True), (''height'', PNum 30)] \<and>
   reportsGroup (buildSettings None) ''barHeight'' \<and>
   enumerateObjectInstances (buildSettings None) ''barHeight'' =
     Inr [\<lparr> objectName = ''barHeight'',
            properties = [(''height'', PNum 30), (''show'', PBool True)],
            validValues = [(''height'', 20, 200)] \<rparr>]"
proof -
  have g: "settingsGroup (buildSettings None) ''barHeight'' = Some [(''show'', PBool True), (''height'', PNum 30)]"
    by (simp add: settingsGroup_def buildSettings_def getBool_def getNum_def getValue_def)
  have e: "enumerateObjectInstances (buildSettings None) ''barHeight'' =
     Inr [\<lparr> objectName = ''barHeight'',
            properties = [(''height'', PNum 30), (''show'', PBool True)],
            validValues = [(''height'', 20, 200)] \<rparr>]"
    by (simp add: enumerateObjectInstances_def buildSettings_def getBool_def getNum_def getValue_def)
  from format_pane[OF g] g e show ?thesis by simp
qed

theorem format_pane_counterexample:
  "\<not> reportsGroup (buildSettings None) ''generalView''"
  apply (simp add: reportsGroup_def settingsGroup_def enumerateObjectInstances_def
      buildSettings_def getNum_def getFill_def getValue_def)
  apply (simp add: fun_eq_iff)
  apply (rule exI[of _ "''minHeight''"])
  apply simp
  done

end
